theory Spec2Isabelle
  imports Main "HOL-Library.Word" "HOL-Library.Signed_Division"
begin

section \<open>The migration master worker (worker/migrationmaster/worker.go)\<close>

text \<open>
  The worker drives one model migration through its phases. It talks to a controller
  facade, a fortress guard, a dialer to the target controller, a clock and its catacomb.
  None of these collaborators is part of worker.go: the model records every call the
  worker makes to them in a trace, together with the error the call returned, and takes
  the answer of each call from an environment that sees the trace so far.
\<close>

subsection \<open>Phases\<close>

text \<open>
  \<open>coremigration.Phase\<close> is an integer type. worker.go names twelve of its values;
  \<open>OtherPhase n\<close> stands for any value it does not name (the \<open>default\<close> branch of
  the driver's switch), and \<open>OtherPhase 0\<close> for the zero value of the type.
\<close>

datatype Phase =
    QUIESCE | READONLY | PRECHECK | IMPORT | VALIDATION | SUCCESS | LOGTRANSFER | REAP
  | ABORT | DONE | REAPFAILED | ABORTDONE
  | OtherPhase nat

text \<open>
  Modelled from the spec: \<open>Phase.IsTerminal\<close> lives in core/migration, which is not
  among the sources. The spec: "IsTerminal(phase) true for the last three" of the table,
  DONE, REAPFAILED and ABORTDONE.
\<close>

fun IsTerminal :: "Phase \<Rightarrow> bool" where
  "IsTerminal DONE = True"
| "IsTerminal REAPFAILED = True"
| "IsTerminal ABORTDONE = True"
| "IsTerminal _ = False"

text \<open>
  Modelled from the spec: \<open>Phase.String\<close> lives in core/migration. The spec writes each
  phase by the name used here; a value outside the table is rendered \<open>UNKNOWN\<close>.
\<close>

fun Phase_String :: "Phase \<Rightarrow> string" where
  "Phase_String QUIESCE = ''QUIESCE''"
| "Phase_String READONLY = ''READONLY''"
| "Phase_String PRECHECK = ''PRECHECK''"
| "Phase_String IMPORT = ''IMPORT''"
| "Phase_String VALIDATION = ''VALIDATION''"
| "Phase_String SUCCESS = ''SUCCESS''"
| "Phase_String LOGTRANSFER = ''LOGTRANSFER''"
| "Phase_String REAP = ''REAP''"
| "Phase_String ABORT = ''ABORT''"
| "Phase_String DONE = ''DONE''"
| "Phase_String REAPFAILED = ''REAPFAILED''"
| "Phase_String ABORTDONE = ''ABORTDONE''"
| "Phase_String (OtherPhase n) = ''UNKNOWN''"

definition modelHasMigrated :: "Phase \<Rightarrow> bool" where
  "modelHasMigrated phase \<longleftrightarrow> phase = DONE \<or> phase = REAPFAILED"

subsection \<open>Time\<close>

text \<open>
  A \<open>time.Duration\<close> is a signed 64-bit count of nanoseconds. A \<open>time.Time\<close> is an
  instant, here the number of nanoseconds since a fixed epoch. \<open>Time.Sub\<close> is Go's:
  the difference of the instants, saturating at the largest and the smallest Duration.
\<close>

type_synonym Duration = "64 word"
type_synonym Time = int

definition Second :: Duration where "Second = 1000000000"
definition Minute :: Duration where "Minute = 60 * Second"

definition maxDuration :: Duration where "maxDuration = word_of_int (2 ^ 63 - 1)"
definition minDuration :: Duration where "minDuration = word_of_int (- (2 ^ 63))"

definition Time_Sub :: "Time \<Rightarrow> Time \<Rightarrow> Duration" where
  "Time_Sub t u =
     (let d = t - u in
      if d > 2 ^ 63 - 1 then maxDuration
      else if d < - (2 ^ 63) then minDuration
      else word_of_int d)"

definition maxMinionWait :: Duration where "maxMinionWait = 15 * Minute"
definition minionWaitLogInterval :: Duration where "minionWaitLogInterval = 30 * Second"

text \<open>Go's integer division truncates towards zero.\<close>

definition truncDuration :: "Duration \<Rightarrow> Duration" where
  "truncDuration d = word_of_int (sint d sdiv sint Second) * Second"

subsection \<open>Errors\<close>

text \<open>
  A Go \<open>error\<close> is an \<open>error option\<close>, \<open>None\<close> for \<open>nil\<close>. \<open>Trace\<close> and
  \<open>Annotate\<close> are the wrappers of github.com/juju/errors, and \<open>Cause\<close> strips them.
  \<open>Errorf\<close> keeps its format and its arguments.
\<close>

datatype arg = S string | P Phase

datatype error =
    ErrDoneForNow
  | ErrUninstall
  | ErrAborted
  | ErrDying
  | errMinionReportTimeout
  | errMinionReportFailed
  | CodeNotFound string
  | External string
  | Errorf string "arg list"
  | Trace error
  | Annotate error string

fun Cause :: "error \<Rightarrow> error" where
  "Cause (Trace e) = Cause e"
| "Cause (Annotate e m) = Cause e"
| "Cause e = e"

text \<open>
  Modelled from the spec: \<open>params.IsCodeNotFound\<close> is not among the sources. The spec:
  "GetMigrationStatus() \<rightarrow> MigrationStatus | NotFound -- NotFound means no migration
  currently". It holds of no \<open>nil\<close> error.
\<close>

fun IsCodeNotFound :: "error option \<Rightarrow> bool" where
  "IsCodeNotFound None = False"
| "IsCodeNotFound (Some e) = (case Cause e of CodeNotFound m \<Rightarrow> True | _ \<Rightarrow> False)"

subsection \<open>The status of a migration and the reports of the minions\<close>

record TargetInfo =
  Addrs :: "string list"
  CACert :: string
  AuthTag :: string
  Password :: string

record MigrationStatus =
  ModelUUID :: string
  Attempt :: int
  Phase :: Phase
  PhaseChangedTime :: Time
  TargetInfo :: TargetInfo

record MinionReports =
  MigrationId :: string
  ReportsPhase :: Phase
  SuccessCount :: int
  UnknownCount :: int
  FailedMachines :: "string list"
  FailedUnits :: "string list"
  SomeUnknownMachines :: "string list"
  SomeUnknownUnits :: "string list"

text \<open>The zero value of the struct, which \<open>var reports coremigration.MinionReports\<close> holds.\<close>

definition MinionReports_zero :: MinionReports where
  "MinionReports_zero =
     \<lparr>MigrationId = [], ReportsPhase = OtherPhase 0, SuccessCount = 0, UnknownCount = 0,
      FailedMachines = [], FailedUnits = [], SomeUnknownMachines = [],
      SomeUnknownUnits = []\<rparr>"

text \<open>
  Modelled from the spec: \<open>MinionReports.IsZero\<close> lives in core/migration. The spec:
  "predicate IsZero() true iff no reports have arrived yet", that is, the value is still
  the zero value.
\<close>

definition IsZero :: "MinionReports \<Rightarrow> bool" where
  "IsZero reports \<longleftrightarrow> reports = MinionReports_zero"

subsection \<open>Formatting\<close>

text \<open>\<open>%d\<close> of an integer and \<open>strings.Join\<close>.\<close>

fun decimal :: "nat \<Rightarrow> string" where
  "decimal n =
     (if n < 10 then [''0123456789'' ! n]
      else decimal (n div 10) @ [''0123456789'' ! (n mod 10)])"

declare decimal.simps [simp del]

definition itoa :: "int \<Rightarrow> string" where
  "itoa i = (if i < 0 then CHR ''-'' # decimal (nat (- i)) else decimal (nat i))"

fun Join :: "string list \<Rightarrow> string \<Rightarrow> string" where
  "Join [] sep = []"
| "Join [x] sep = x"
| "Join (x # y # ys) sep = x @ sep @ Join (y # ys) sep"

definition validateMinionReports :: "MinionReports \<Rightarrow> MigrationStatus \<Rightarrow> error option" where
  "validateMinionReports reports status =
     (let migId = ModelUUID status @ '':'' @ itoa (Attempt status) in
      if MigrationId reports \<noteq> migId then
        Some (Errorf ''unexpected migration id in minion reports, got %v, expected %v''
                [S (MigrationId reports), S migId])
      else if ReportsPhase reports \<noteq> Phase status then
        Some (Errorf ''minion reports phase (%s) does not match migration phase (%s)''
                [P (ReportsPhase reports), P (Phase status)])
      else None)"

text \<open>
  \<open>formatMinionTimeout\<close> builds \<open>msg\<close> from a string constant and never passes it to
  \<open>Sprintf\<close>, so its two \<open>%s\<close> stay in the result.
\<close>

definition formatMinionTimeout :: "MinionReports \<Rightarrow> MigrationStatus \<Rightarrow> string" where
  "formatMinionTimeout reports status =
     (if IsZero reports then
        ''no agents reported in time for migration phase '' @ Phase_String (Phase status)
      else
        (let msg = ''%s agents failed to report in time for migration phase %s including:'';
             msg1 = (if length (SomeUnknownMachines reports) > 0
                     then msg @ ''machines: '' @ Join (SomeUnknownMachines reports) '', '' @ '';''
                     else msg);
             msg2 = (if length (SomeUnknownUnits reports) > 0
                     then msg1 @ '' units: '' @ Join (SomeUnknownUnits reports) '', ''
                     else msg1)
         in msg2))"

definition formatMinionFailure :: "MinionReports \<Rightarrow> string" where
  "formatMinionFailure reports =
     (let msg = ''some agents failed '' @ Phase_String (ReportsPhase reports) @ '': '';
          msg1 = (if length (FailedMachines reports) > 0
                  then msg @ ''failed machines: '' @ Join (FailedMachines reports) '', '' @ ''; ''
                  else msg);
          msg2 = (if length (FailedUnits reports) > 0
                  then msg1 @ ''failed units: '' @ Join (FailedUnits reports) '', ''
                  else msg1)
      in msg2)"

definition formatMinionWaitUpdate :: "MinionReports \<Rightarrow> MigrationStatus \<Rightarrow> string" where
  "formatMinionWaitUpdate reports status =
     (if IsZero reports then
        ''no reports from minions yet for '' @ Phase_String (Phase status)
      else
        (let msg = ''waiting for minions to report for '' @ Phase_String (ReportsPhase reports)
                   @ '': '' @ itoa (SuccessCount reports) @ '' succeeded, ''
                   @ itoa (UnknownCount reports) @ '' still to report'';
             failed = length (FailedMachines reports) + length (FailedUnits reports)
         in if failed > 0 then msg @ '', '' @ itoa (int failed) @ '' failed'' else msg))"

definition formatMinionWaitDone :: "MinionReports \<Rightarrow> string" where
  "formatMinionWaitDone reports =
     ''completed waiting for minions to report for '' @ Phase_String (ReportsPhase reports)
     @ '': '' @ itoa (SuccessCount reports) @ '' succeeded, ''
     @ itoa (int (length (FailedMachines reports) + length (FailedUnits reports)))
     @ '' failed''"

subsection \<open>Calls, traces and the environment\<close>

type_synonym conn = nat
type_synonym capability = nat
type_synonym bytes = "8 word list"

record SerializedModel =
  Bytes :: bytes
  Charms :: "string list"
  Tools :: "string list"

text \<open>\<open>api.Info\<close>, as \<open>openAPIConnForModel\<close> fills it.\<close>

record Info =
  Info_Addrs :: "string list"
  Info_CACert :: string
  Info_Tag :: string
  Info_Password :: string
  Info_ModelTag :: string

record UploadBinariesConfig =
  Cfg_Charms :: "string list"
  CharmDownloader :: capability
  CharmUploader :: conn
  Cfg_Tools :: "string list"
  ToolsDownloader :: capability
  ToolsUploader :: conn

datatype level = INFO | ERROR

datatype logarg = LP Phase | LD Duration | LE error

text \<open>
  Every call the worker makes to a collaborator. A connection is a handle; \<open>Import\<close>,
  \<open>Activate\<close> and \<open>Abort\<close> are the calls of the migration target client made on it.
  \<open>APIOpen\<close> is always called with the zero \<open>api.DialOpts\<close>, which is left out.
  \<open>Log\<close> is a call of the logger with its format and arguments.
\<close>

datatype action =
    Watch
  | CatacombAdd
  | WatcherKill
  | GetMigrationStatus
  | Unlock
  | Lockdown
  | SetPhase Phase
  | Export
  | APIOpen Info
  | Close conn
  | Import conn bytes
  | UploadBinaries UploadBinariesConfig
  | Activate conn string
  | Abort conn string
  | Reap
  | Now
  | After Duration
  | WatchMinionReports
  | GetMinionReports
  | Log level string "logarg list"

text \<open>A trace lists the calls made so far, each with the error it returned.\<close>

type_synonym trace = "(action \<times> error option) list"

text \<open>
  What a \<open>select\<close> of the worker receives: in \<open>waitForActiveMigration\<close> the catacomb
  dies or the watcher fires; in \<open>waitForMinions\<close> the catacomb dies, the deadline
  passes, the reports watcher fires or the progress timer fires.
\<close>

datatype active_event = Dying | Changes

datatype minion_event = MDying | MTimeout | MChanges | MLogProgress

text \<open>
  The environment answers each call from the trace before it. The two event lists are
  what the two \<open>select\<close> loops receive, in order; a loop that has used up its list
  waits for ever.
\<close>

record env =
  Watch_ret :: "trace \<Rightarrow> error option"
  GetMigrationStatus_ret :: "trace \<Rightarrow> error + MigrationStatus"
  SetPhase_ret :: "trace \<Rightarrow> Phase \<Rightarrow> error option"
  Export_ret :: "trace \<Rightarrow> error + SerializedModel"
  Reap_ret :: "trace \<Rightarrow> error option"
  WatchMinionReports_ret :: "trace \<Rightarrow> error option"
  GetMinionReports_ret :: "trace \<Rightarrow> error + MinionReports"
  Lockdown_ret :: "trace \<Rightarrow> error option"
  Unlock_ret :: "trace \<Rightarrow> error option"
  APIOpen_ret :: "trace \<Rightarrow> Info \<Rightarrow> error + conn"
  Import_ret :: "trace \<Rightarrow> conn \<Rightarrow> bytes \<Rightarrow> error option"
  Activate_ret :: "trace \<Rightarrow> conn \<Rightarrow> string \<Rightarrow> error option"
  Abort_ret :: "trace \<Rightarrow> conn \<Rightarrow> string \<Rightarrow> error option"
  UploadBinaries_ret :: "trace \<Rightarrow> UploadBinariesConfig \<Rightarrow> error option"
  Config_CharmDownloader :: capability
  Config_ToolsDownloader :: capability
  Now_ret :: "trace \<Rightarrow> Time"
  CatacombAdd_ret :: "trace \<Rightarrow> error option"
  killed :: "trace \<Rightarrow> bool"
  activeEvents :: "active_event list"
  minionEvents :: "minion_event list"

text \<open>The result of a function that may wait for ever.\<close>

datatype 'a wait = Forever | Returned 'a

fun err_of :: "error + 'a \<Rightarrow> error option" where
  "err_of (Inl e) = Some e"
| "err_of (Inr x) = None"

text \<open>The phases persisted in a trace: the arguments of the \<open>SetPhase\<close> calls that succeeded.\<close>

fun phasesSet :: "trace \<Rightarrow> Phase list" where
  "phasesSet [] = []"
| "phasesSet ((SetPhase p, None) # tr) = p # phasesSet tr"
| "phasesSet (c # tr) = phasesSet tr"

text \<open>The calls a function added to the trace it was given.\<close>

definition added :: "trace \<Rightarrow> trace \<Rightarrow> trace" where
  "added tr tr' = drop (length tr) tr'"

subsection \<open>Dialling the target controller\<close>

definition openAPIConnForModel ::
    "env \<Rightarrow> TargetInfo \<Rightarrow> string \<Rightarrow> trace \<Rightarrow> (error + conn) \<times> trace" where
  "openAPIConnForModel e targetInfo modelUUID tr =
     (let apiInfo = \<lparr>Info_Addrs = Addrs targetInfo, Info_CACert = CACert targetInfo,
                      Info_Tag = AuthTag targetInfo, Info_Password = Password targetInfo,
                      Info_ModelTag = modelUUID\<rparr>;
          r = APIOpen_ret e tr apiInfo
      in (r, tr @ [(APIOpen apiInfo, err_of r)]))"

definition openAPIConn :: "env \<Rightarrow> TargetInfo \<Rightarrow> trace \<Rightarrow> (error + conn) \<times> trace" where
  "openAPIConn e targetInfo tr = openAPIConnForModel e targetInfo [] tr"

subsection \<open>The phase handlers\<close>

definition doQUIESCE :: "env \<Rightarrow> trace \<Rightarrow> (Phase \<times> error option) \<times> trace" where
  "doQUIESCE e tr = ((READONLY, None), tr)"

definition doREADONLY :: "env \<Rightarrow> trace \<Rightarrow> (Phase \<times> error option) \<times> trace" where
  "doREADONLY e tr = ((PRECHECK, None), tr)"

definition doPRECHECK :: "env \<Rightarrow> trace \<Rightarrow> (Phase \<times> error option) \<times> trace" where
  "doPRECHECK e tr = ((IMPORT, None), tr)"

text \<open>
  A deferred \<open>Close\<close> runs when the handler returns, the later one first. Its result is
  dropped.
\<close>

definition doIMPORT ::
    "env \<Rightarrow> TargetInfo \<Rightarrow> string \<Rightarrow> trace \<Rightarrow> (Phase \<times> error option) \<times> trace" where
  "doIMPORT e targetInfo modelUUID tr =
     (let tr1 = tr @ [(Log INFO ''exporting model'' [], None)] in
      case Export_ret e tr1 of
        Inl err \<Rightarrow>
          ((ABORT, None),
           tr1 @ [(Export, Some err), (Log ERROR ''model export failed: %v'' [LE err], None)])
      | Inr serialized \<Rightarrow>
         (let tr2 = tr1 @ [(Export, None),
                    (Log INFO ''opening API connection to target controller'' [], None)] in
          case openAPIConn e targetInfo tr2 of
            (Inl err, tr3) \<Rightarrow>
              ((ABORT, None),
               tr3 @ [(Log ERROR ''failed to connect to target controller: %v'' [LE err], None)])
          | (Inr conn, tr3) \<Rightarrow>
             (let tr4 = tr3 @ [(Log INFO ''importing model into target controller'' [], None)] in
              case Import_ret e tr4 conn (Bytes serialized) of
                Some err \<Rightarrow>
                  ((ABORT, None),
                   tr4 @ [(Import conn (Bytes serialized), Some err),
                          (Log ERROR ''failed to import model into target controller: %v''
                             [LE err], None),
                          (Close conn, None)])
              | None \<Rightarrow>
                 (let tr5 = tr4 @ [(Import conn (Bytes serialized), None),
                            (Log INFO ''opening API connection for target model'' [], None)] in
                  case openAPIConnForModel e targetInfo modelUUID tr5 of
                    (Inl err, tr6) \<Rightarrow>
                      ((ABORT, None),
                       tr6 @ [(Log ERROR ''failed to open connection to target model: %v''
                                 [LE err], None),
                              (Close conn, None)])
                  | (Inr targetModelConn, tr6) \<Rightarrow>
                     (let tr7 = tr6 @ [(Log INFO ''uploading binaries into target model'' [],
                                        None)];
                          cfg = \<lparr>Cfg_Charms = Charms serialized,
                                 CharmDownloader = Config_CharmDownloader e,
                                 CharmUploader = targetModelConn,
                                 Cfg_Tools = Tools serialized,
                                 ToolsDownloader = Config_ToolsDownloader e,
                                 ToolsUploader = targetModelConn\<rparr> in
                      case UploadBinaries_ret e tr7 cfg of
                        Some err \<Rightarrow>
                          ((ABORT, None),
                           tr7 @ [(UploadBinaries cfg, Some err),
                                  (Log ERROR ''failed migration binaries: %v'' [LE err], None),
                                  (Close targetModelConn, None), (Close conn, None)])
                      | None \<Rightarrow>
                          ((VALIDATION, None),
                           tr7 @ [(UploadBinaries cfg, None),
                                  (Close targetModelConn, None), (Close conn, None)]))))))"

definition activateModel ::
    "env \<Rightarrow> TargetInfo \<Rightarrow> string \<Rightarrow> trace \<Rightarrow> error option \<times> trace" where
  "activateModel e targetInfo modelUUID tr =
     (case openAPIConn e targetInfo tr of
        (Inl err, tr1) \<Rightarrow> (Some (Trace err), tr1)
      | (Inr conn, tr1) \<Rightarrow>
         (let err = Activate_ret e tr1 conn modelUUID in
          (map_option Trace err,
           tr1 @ [(Activate conn modelUUID, err), (Close conn, None)])))"

definition doVALIDATION ::
    "env \<Rightarrow> TargetInfo \<Rightarrow> string \<Rightarrow> trace \<Rightarrow> (Phase \<times> error option) \<times> trace" where
  "doVALIDATION e targetInfo modelUUID tr =
     (case activateModel e targetInfo modelUUID tr of
        (Some err, tr1) \<Rightarrow> ((ABORT, None), tr1)
      | (None, tr1) \<Rightarrow> ((SUCCESS, None), tr1))"

definition doLOGTRANSFER :: "env \<Rightarrow> trace \<Rightarrow> (Phase \<times> error option) \<times> trace" where
  "doLOGTRANSFER e tr = ((REAP, None), tr)"

definition doREAP :: "env \<Rightarrow> trace \<Rightarrow> (Phase \<times> error option) \<times> trace" where
  "doREAP e tr =
     (case Reap_ret e tr of
        Some err \<Rightarrow> ((REAPFAILED, Some (Trace err)), tr @ [(Reap, Some err)])
      | None \<Rightarrow> ((DONE, None), tr @ [(Reap, None)]))"

definition removeImportedModel ::
    "env \<Rightarrow> TargetInfo \<Rightarrow> string \<Rightarrow> trace \<Rightarrow> error option \<times> trace" where
  "removeImportedModel e targetInfo modelUUID tr =
     (case openAPIConn e targetInfo tr of
        (Inl err, tr1) \<Rightarrow> (Some (Trace err), tr1)
      | (Inr conn, tr1) \<Rightarrow>
         (let err = Abort_ret e tr1 conn modelUUID in
          (map_option Trace err,
           tr1 @ [(Abort conn modelUUID, err), (Close conn, None)])))"

definition doABORT ::
    "env \<Rightarrow> TargetInfo \<Rightarrow> string \<Rightarrow> trace \<Rightarrow> (Phase \<times> error option) \<times> trace" where
  "doABORT e targetInfo modelUUID tr =
     (case removeImportedModel e targetInfo modelUUID tr of
        (Some err, tr1) \<Rightarrow>
          ((ABORTDONE, None),
           tr1 @ [(Log ERROR ''failed to reverse model import: %v'' [LE err], None)])
      | (None, tr1) \<Rightarrow> ((ABORTDONE, None), tr1))"

subsection \<open>Waiting for an active migration\<close>

fun waitActiveLoop ::
    "env \<Rightarrow> active_event list \<Rightarrow> trace \<Rightarrow> (error + MigrationStatus) wait \<times> trace" where
  "waitActiveLoop e [] tr = (Forever, tr)"
| "waitActiveLoop e (Dying # evs) tr = (Returned (Inl ErrDying), tr)"
| "waitActiveLoop e (Changes # evs) tr =
     (let r = GetMigrationStatus_ret e tr;
          tr1 = tr @ [(GetMigrationStatus, err_of r)] in
      if IsCodeNotFound (err_of r) then
        (let u = Unlock_ret e tr1; tr2 = tr1 @ [(Unlock, u)] in
         case u of
           Some err \<Rightarrow> (Returned (Inl (Trace err)), tr2)
         | None \<Rightarrow> waitActiveLoop e evs tr2)
      else
        (case r of
           Inl err \<Rightarrow> (Returned (Inl (Annotate err ''retrieving migration status'')), tr1)
         | Inr status \<Rightarrow>
             if modelHasMigrated (Phase status) then (Returned (Inl ErrUninstall), tr1)
             else if \<not> IsTerminal (Phase status) then (Returned (Inr status), tr1)
             else waitActiveLoop e evs tr1))"

text \<open>\<open>defer watcher.Kill()\<close> is in force once the watcher has been added to the catacomb.\<close>

definition waitForActiveMigration ::
    "env \<Rightarrow> trace \<Rightarrow> (error + MigrationStatus) wait \<times> trace" where
  "waitForActiveMigration e tr =
     (let w = Watch_ret e tr; tr1 = tr @ [(Watch, w)] in
      case w of
        Some err \<Rightarrow> (Returned (Inl (Annotate err ''watching for migration'')), tr1)
      | None \<Rightarrow>
         (let a = CatacombAdd_ret e tr1; tr2 = tr1 @ [(CatacombAdd, a)] in
          case a of
            Some err \<Rightarrow> (Returned (Inl (Trace err)), tr2)
          | None \<Rightarrow>
             (case waitActiveLoop e (activeEvents e) tr2 of
                (Forever, tr3) \<Rightarrow> (Forever, tr3)
              | (Returned r, tr3) \<Rightarrow> (Returned r, tr3 @ [(WatcherKill, None)]))))"

subsection \<open>Waiting for the minions\<close>

definition failFast :: bool where "failFast = False"
definition waitForAll :: bool where "waitForAll = True"

fun minionLoop ::
    "env \<Rightarrow> MigrationStatus \<Rightarrow> bool \<Rightarrow> MinionReports \<Rightarrow> minion_event list \<Rightarrow> trace
       \<Rightarrow> error option wait \<times> trace" where
  "minionLoop e status waitPolicy reports [] tr = (Forever, tr)"
| "minionLoop e status waitPolicy reports (MDying # evs) tr = (Returned (Some ErrDying), tr)"
| "minionLoop e status waitPolicy reports (MTimeout # evs) tr =
     (Returned (Some (Trace errMinionReportTimeout)),
      tr @ [(Log ERROR (formatMinionTimeout reports status) [], None)])"
| "minionLoop e status waitPolicy reports (MChanges # evs) tr =
     (let r = GetMinionReports_ret e tr;
          tr1 = tr @ [(GetMinionReports, err_of r)] in
      case r of
        Inl err \<Rightarrow> (Returned (Some (Trace err)), tr1)
      | Inr reports' \<Rightarrow>
         (case validateMinionReports reports' status of
            Some err \<Rightarrow> (Returned (Some (Trace err)), tr1)
          | None \<Rightarrow>
             (let failures = length (FailedMachines reports') + length (FailedUnits reports');
                  tr2 = (if failures > 0
                         then tr1 @ [(Log ERROR (formatMinionFailure reports') [], None)]
                         else tr1) in
              if failures > 0 \<and> waitPolicy = failFast then
                (Returned (Some (Trace errMinionReportFailed)), tr2)
              else if UnknownCount reports' = 0 then
                (Returned (if failures > 0 then Some (Trace errMinionReportFailed) else None),
                 tr2 @ [(Log INFO (formatMinionWaitDone reports') [], None)])
              else minionLoop e status waitPolicy reports' evs tr2)))"
| "minionLoop e status waitPolicy reports (MLogProgress # evs) tr =
     minionLoop e status waitPolicy reports evs
       (tr @ [(Log INFO (formatMinionWaitUpdate reports status) [], None),
              (After minionWaitLogInterval, None)])"

definition waitForMinions ::
    "env \<Rightarrow> MigrationStatus \<Rightarrow> bool \<Rightarrow> trace \<Rightarrow> error option wait \<times> trace" where
  "waitForMinions e status waitPolicy tr =
     (let now = Now_ret e tr;
          maxWait = maxMinionWait - Time_Sub now (PhaseChangedTime status);
          tr1 = tr @ [(Now, None), (After maxWait, None),
                 (Log INFO
                    ''waiting for minions to report back for migration phase %s (will wait up to %s)''
                    [LP (Phase status), LD (truncDuration maxWait)], None)];
          w = WatchMinionReports_ret e tr1;
          tr2 = tr1 @ [(WatchMinionReports, w)] in
      case w of
        Some err \<Rightarrow> (Returned (Some (Trace err)), tr2)
      | None \<Rightarrow>
         (let a = CatacombAdd_ret e tr2; tr3 = tr2 @ [(CatacombAdd, a)] in
          case a of
            Some err \<Rightarrow> (Returned (Some (Trace err)), tr3)
          | None \<Rightarrow>
              minionLoop e status waitPolicy MinionReports_zero (minionEvents e)
                (tr3 @ [(After minionWaitLogInterval, None)])))"

definition doSUCCESS ::
    "env \<Rightarrow> MigrationStatus \<Rightarrow> trace \<Rightarrow> (Phase \<times> error option) wait \<times> trace" where
  "doSUCCESS e status tr =
     (case waitForMinions e status waitForAll tr of
        (Forever, tr1) \<Rightarrow> (Forever, tr1)
      | (Returned err, tr1) \<Rightarrow>
          if map_option Cause err = None
             \<or> map_option Cause err = Some errMinionReportFailed
             \<or> map_option Cause err = Some errMinionReportTimeout
          then (Returned (LOGTRANSFER, None), tr1)
          else (Returned (SUCCESS, map_option Trace err), tr1))"

subsection \<open>The driver\<close>

text \<open>
  The \<open>switch\<close> of the loop: the handler of the phase, or the error that the
  \<open>default\<close> branch returns from \<open>run\<close>.
\<close>

definition returned :: "'a \<times> trace \<Rightarrow> (error + 'a) wait \<times> trace" where
  "returned r = (Returned (Inr (fst r)), snd r)"

definition dispatch ::
    "env \<Rightarrow> MigrationStatus \<Rightarrow> trace \<Rightarrow> (error + Phase \<times> error option) wait \<times> trace" where
  "dispatch e status tr =
     (case Phase status of
        QUIESCE \<Rightarrow> returned (doQUIESCE e tr)
      | READONLY \<Rightarrow> returned (doREADONLY e tr)
      | PRECHECK \<Rightarrow> returned (doPRECHECK e tr)
      | IMPORT \<Rightarrow> returned (doIMPORT e (TargetInfo status) (ModelUUID status) tr)
      | VALIDATION \<Rightarrow> returned (doVALIDATION e (TargetInfo status) (ModelUUID status) tr)
      | SUCCESS \<Rightarrow>
          (case doSUCCESS e status tr of
             (Forever, tr1) \<Rightarrow> (Forever, tr1)
           | (Returned r, tr1) \<Rightarrow> (Returned (Inr r), tr1))
      | LOGTRANSFER \<Rightarrow> returned (doLOGTRANSFER e tr)
      | REAP \<Rightarrow> returned (doREAP e tr)
      | ABORT \<Rightarrow> returned (doABORT e (TargetInfo status) (ModelUUID status) tr)
      | _ \<Rightarrow>
          (Returned (Inl (Errorf ''unknown phase: %v [%d]''
                            [S (Phase_String (Phase status)), P (Phase status)])), tr))"

text \<open>One turn of the loop of \<open>run\<close>: it leaves \<open>run\<close>, goes round again, or waits for ever.\<close>

datatype step = Exit error | Continue MigrationStatus | Waits

definition iteration :: "env \<Rightarrow> MigrationStatus \<Rightarrow> trace \<Rightarrow> step \<times> trace" where
  "iteration e status tr =
     (case dispatch e status tr of
        (Forever, tr1) \<Rightarrow> (Waits, tr1)
      | (Returned (Inl err), tr1) \<Rightarrow> (Exit err, tr1)
      | (Returned (Inr (phase, Some err)), tr1) \<Rightarrow> (Exit (Trace err), tr1)
      | (Returned (Inr (phase, None)), tr1) \<Rightarrow>
          if killed e tr1 then (Exit ErrDying, tr1)
          else
            (let tr2 = tr1 @ [(Log INFO ''setting migration phase to %s'' [LP phase], None)];
                 r = SetPhase_ret e tr2 phase;
                 tr3 = tr2 @ [(SetPhase phase, r)] in
             case r of
               Some err \<Rightarrow> (Exit (Annotate err ''failed to set phase''), tr3)
             | None \<Rightarrow>
                 if modelHasMigrated phase then (Exit ErrUninstall, tr3)
                 else if IsTerminal phase then (Exit ErrDoneForNow, tr3)
                 else (Continue (status\<lparr>Phase := phase\<rparr>), tr3)))"

text \<open>
  The loop of \<open>run\<close> goes round again only with a phase further along the migration, so
  it is a total function: \<open>rank\<close> orders the phases as the handlers step through them.
\<close>

fun rank :: "Phase \<Rightarrow> nat" where
  "rank QUIESCE = 0"
| "rank READONLY = 1"
| "rank PRECHECK = 2"
| "rank IMPORT = 3"
| "rank VALIDATION = 4"
| "rank SUCCESS = 5"
| "rank LOGTRANSFER = 6"
| "rank REAP = 7"
| "rank ABORT = 8"
| "rank _ = 9"

lemma doIMPORT_phase:
  "fst (doIMPORT e ti u tr) = (ABORT, None) \<or> fst (doIMPORT e ti u tr) = (VALIDATION, None)"
  by (simp add: doIMPORT_def Let_def split: sum.split option.split prod.split)

lemma doVALIDATION_phase:
  "fst (doVALIDATION e ti u tr) = (ABORT, None) \<or> fst (doVALIDATION e ti u tr) = (SUCCESS, None)"
  by (simp add: doVALIDATION_def split: sum.split option.split prod.split)

lemma doABORT_phase: "fst (doABORT e ti u tr) = (ABORTDONE, None)"
  by (simp add: doABORT_def split: sum.split option.split prod.split)

lemma doSUCCESS_phase:
  "doSUCCESS e st tr = (Returned (p, None), tr') \<Longrightarrow> p = LOGTRANSFER"
  by (auto simp add: doSUCCESS_def split: prod.splits wait.splits if_splits)

lemma doREAP_phase: "fst (doREAP e tr) = (p, None) \<Longrightarrow> p = DONE"
  by (auto simp add: doREAP_def split: option.splits)

lemma dispatch_rank:
  assumes "dispatch e st tr = (Returned (Inr (p, None)), tr')"
  shows "rank (Phase st) < rank p"
proof (cases "Phase st")
  case IMPORT
  with assms doIMPORT_phase [of e "TargetInfo st" "ModelUUID st" tr] show ?thesis
    by (auto simp add: dispatch_def returned_def)
next
  case VALIDATION
  with assms doVALIDATION_phase [of e "TargetInfo st" "ModelUUID st" tr] show ?thesis
    by (auto simp add: dispatch_def returned_def)
next
  case SUCCESS
  with assms show ?thesis
    by (auto simp add: dispatch_def dest: doSUCCESS_phase split: prod.splits wait.splits)
next
  case REAP
  with assms show ?thesis
    by (auto simp add: dispatch_def returned_def dest: doREAP_phase)
next
  case ABORT
  with assms doABORT_phase [of e "TargetInfo st" "ModelUUID st" tr] show ?thesis
    by (auto simp add: dispatch_def returned_def)
qed (use assms in \<open>auto simp add: dispatch_def returned_def doQUIESCE_def doREADONLY_def
       doPRECHECK_def doLOGTRANSFER_def\<close>)

lemma iteration_Continue:
  assumes "iteration e st tr = (Continue st', tr')"
  shows "rank (Phase st) < rank (Phase st') \<and> \<not> IsTerminal (Phase st')"
  using assms
  by (auto simp add: iteration_def Let_def dest: dispatch_rank
      split: prod.splits wait.splits sum.splits option.splits if_splits)

lemma rank_le: "rank p \<le> 9"
  by (cases p) simp_all

function run_loop :: "env \<Rightarrow> MigrationStatus \<Rightarrow> trace \<Rightarrow> error wait \<times> trace" where
  "run_loop e status tr =
     (case iteration e status tr of
        (Exit err, tr1) \<Rightarrow> (Returned err, tr1)
      | (Waits, tr1) \<Rightarrow> (Forever, tr1)
      | (Continue status', tr1) \<Rightarrow> run_loop e status' tr1)"
  by pat_completeness auto
termination
proof (relation "measure (\<lambda>(e, status, tr). 9 - rank (Phase status))")
  show "wf (measure (\<lambda>(e, status, tr). 9 - rank (Phase status)))" by simp
next
  fix e status tr x1 tr1 status'
  assume "(x1, tr1) = iteration e status tr" "x1 = Continue status'"
  then have "iteration e status tr = (Continue status', tr1)" by simp
  from iteration_Continue [OF this] rank_le [of "Phase status'"]
  show "((e, status', tr1), e, status, tr) \<in> measure (\<lambda>(e, status, tr). 9 - rank (Phase status))"
    by auto
qed

definition run :: "env \<Rightarrow> error wait \<times> trace" where
  "run e =
     (case waitForActiveMigration e [] of
        (Forever, tr) \<Rightarrow> (Forever, tr)
      | (Returned (Inl err), tr) \<Rightarrow> (Returned (Trace err), tr)
      | (Returned (Inr status), tr) \<Rightarrow>
         (let l = Lockdown_ret e tr; tr1 = tr @ [(Lockdown, l)] in
          if map_option Cause l = Some ErrAborted then (Returned ErrDying, tr1)
          else
            (case l of
               Some err \<Rightarrow> (Returned (Trace err), tr1)
             | None \<Rightarrow> run_loop e status tr1)))"

text \<open>
  The status and the trace with which the loop of \<open>run\<close> starts its turn number \<open>n\<close>
  (counted from 0), if it gets that far.
\<close>

fun loop_after :: "env \<Rightarrow> nat \<Rightarrow> MigrationStatus \<Rightarrow> trace \<Rightarrow> (MigrationStatus \<times> trace) option" where
  "loop_after e 0 status tr = Some (status, tr)"
| "loop_after e (Suc n) status tr =
     (case iteration e status tr of
        (Continue status', tr1) \<Rightarrow> loop_after e n status' tr1
      | _ \<Rightarrow> None)"

text \<open>The duration of the first \<open>Clock.After\<close> call in a trace.\<close>

fun firstAfter :: "trace \<Rightarrow> Duration option" where
  "firstAfter [] = None"
| "firstAfter ((After d, r) # tr) = Some d"
| "firstAfter (c # tr) = firstAfter tr"

declare run_loop.simps [simp del]

subsection \<open>A concrete migration\<close>

text \<open>
  The migration of the end-to-end scenarios of the spec: model \<open>m1\<close>, attempt 1, found in
  phase QUIESCE, in an environment where every call succeeds and the minions all report
  success.
\<close>

definition target0 :: TargetInfo where
  "target0 = \<lparr>Addrs = [''10.0.0.1:17070''], CACert = ''cert'', AuthTag = ''user-admin'',
              Password = ''secret''\<rparr>"

definition status0 :: MigrationStatus where
  "status0 = \<lparr>ModelUUID = ''m1'', Attempt = 1, Phase = QUIESCE, PhaseChangedTime = 0,
              TargetInfo = target0\<rparr>"

definition model0 :: SerializedModel where
  "model0 = \<lparr>Bytes = [1, 2, 3], Charms = [''cs:mysql-1''], Tools = [''2.0.0-xenial-amd64'']\<rparr>"

definition reports_done :: MinionReports where
  "reports_done =
     \<lparr>MigrationId = ''m1:1'', ReportsPhase = SUCCESS, SuccessCount = 4, UnknownCount = 0,
      FailedMachines = [], FailedUnits = [], SomeUnknownMachines = [],
      SomeUnknownUnits = []\<rparr>"

definition reports_failed :: MinionReports where
  "reports_failed =
     \<lparr>MigrationId = ''m1:1'', ReportsPhase = SUCCESS, SuccessCount = 1, UnknownCount = 2,
      FailedMachines = [''3''], FailedUnits = [], SomeUnknownMachines = [''42''],
      SomeUnknownUnits = [''mysql/0'']\<rparr>"

definition reports_silent :: MinionReports where
  "reports_silent =
     \<lparr>MigrationId = ''m1:1'', ReportsPhase = SUCCESS, SuccessCount = 2, UnknownCount = 2,
      FailedMachines = [], FailedUnits = [], SomeUnknownMachines = [''42''],
      SomeUnknownUnits = [''mysql/0'']\<rparr>"

definition reports_stale :: MinionReports where
  "reports_stale =
     \<lparr>MigrationId = ''m1:0'', ReportsPhase = SUCCESS, SuccessCount = 4, UnknownCount = 0,
      FailedMachines = [], FailedUnits = [], SomeUnknownMachines = [],
      SomeUnknownUnits = []\<rparr>"

definition env_ok :: env where
  "env_ok =
     \<lparr>Watch_ret = (\<lambda>tr. None),
      GetMigrationStatus_ret = (\<lambda>tr. Inr status0),
      SetPhase_ret = (\<lambda>tr p. None),
      Export_ret = (\<lambda>tr. Inr model0),
      Reap_ret = (\<lambda>tr. None),
      WatchMinionReports_ret = (\<lambda>tr. None),
      GetMinionReports_ret = (\<lambda>tr. Inr reports_done),
      Lockdown_ret = (\<lambda>tr. None),
      Unlock_ret = (\<lambda>tr. None),
      APIOpen_ret = (\<lambda>tr info. Inr (if Info_ModelTag info = [] then 1 else 2)),
      Import_ret = (\<lambda>tr c b. None),
      Activate_ret = (\<lambda>tr c u. None),
      Abort_ret = (\<lambda>tr c u. None),
      UploadBinaries_ret = (\<lambda>tr cfg. None),
      Config_CharmDownloader = 1,
      Config_ToolsDownloader = 2,
      Now_ret = (\<lambda>tr. 1000000000),
      CatacombAdd_ret = (\<lambda>tr. None),
      killed = (\<lambda>tr. False),
      activeEvents = [Changes],
      minionEvents = [MChanges]\<rparr>"

text \<open>The same environment with a clock 10^19 ns (some 317 years) after the phase change.\<close>

definition env_late :: env where
  "env_late = env_ok\<lparr>Now_ret := (\<lambda>tr. 10000000000000000000)\<rparr>"

text \<open>With a \<open>Reap\<close> that fails.\<close>

definition env_reap_fails :: env where
  "env_reap_fails = env_ok\<lparr>Reap_ret := (\<lambda>tr. Some (External ''reap failed''))\<rparr>"

text \<open>With minions of which two stay silent until the deadline.\<close>

definition env_silent :: env where
  "env_silent = env_ok\<lparr>GetMinionReports_ret := (\<lambda>tr. Inr reports_silent),
                        minionEvents := [MChanges, MTimeout]\<rparr>"

text \<open>With a machine agent that reports failure while two agents are still to report.\<close>

definition env_failed :: env where
  "env_failed = env_ok\<lparr>GetMinionReports_ret := (\<lambda>tr. Inr reports_failed),
                        minionEvents := [MChanges, MTimeout]\<rparr>"


text \<open>With no migration at the first tick of the watcher, and one that is DONE at the second.\<close>

definition env_notfound_then_done :: env where
  "env_notfound_then_done =
     env_ok\<lparr>GetMigrationStatus_ret :=
              (\<lambda>tr. if (Unlock, None) \<in> set tr then Inr (status0\<lparr>Phase := DONE\<rparr>)
                    else Inl (CodeNotFound ''migration not found'')),
            activeEvents := [Changes, Changes]\<rparr>"

text \<open>With an aborted migration at the first tick, and the active one at the second.\<close>

definition env_abortdone_then_active :: env where
  "env_abortdone_then_active =
     env_ok\<lparr>GetMigrationStatus_ret :=
              (\<lambda>tr. if (GetMigrationStatus, None) \<in> set tr then Inr status0
                    else Inr (status0\<lparr>Phase := ABORTDONE\<rparr>)),
            activeEvents := [Changes, Changes]\<rparr>"





text \<open>With no migration at every tick and a guard whose \<open>Unlock\<close> fails.\<close>

definition env_unlock_fails :: env where
  "env_unlock_fails =
     env_ok\<lparr>GetMigrationStatus_ret := (\<lambda>tr. Inl (CodeNotFound ''migration not found'')),
            Unlock_ret := (\<lambda>tr. Some (External ''fortress shut down'')),
            activeEvents := [Changes, Changes]\<rparr>"

subsection \<open>The calls of the IMPORT handler\<close>

text \<open>
  Shorthand for stating what the IMPORT handler does: the \<open>api.Info\<close> it dials with, its
  log entries, the trace at each of its five calls that can fail (given the trace \<open>tr\<close>
  it starts with, the connection \<open>c\<close> and the model \<open>m\<close> that the earlier calls
  returned), the configuration it hands to \<open>UploadBinaries\<close>, and the condition that one
  of the five calls fails.
\<close>

abbreviation apiInfo :: "TargetInfo \<Rightarrow> string \<Rightarrow> Info" where
  "apiInfo targetInfo modelUUID \<equiv>
     \<lparr>Info_Addrs = Addrs targetInfo, Info_CACert = CACert targetInfo,
      Info_Tag = AuthTag targetInfo, Info_Password = Password targetInfo,
      Info_ModelTag = modelUUID\<rparr>"

abbreviation logInfof :: "string \<Rightarrow> action \<times> error option" where
  "logInfof msg \<equiv> (Log INFO msg [], None)"


abbreviation atExport :: "trace \<Rightarrow> trace" where
  "atExport tr \<equiv> tr @ [logInfof ''exporting model'']"

abbreviation atDial :: "trace \<Rightarrow> trace" where
  "atDial tr \<equiv>
     atExport tr @ [(Export, None), logInfof ''opening API connection to target controller'']"

abbreviation atImport :: "TargetInfo \<Rightarrow> trace \<Rightarrow> trace" where
  "atImport ti tr \<equiv>
     atDial tr @ [(APIOpen (apiInfo ti []), None),
                  logInfof ''importing model into target controller'']"

abbreviation atModelDial :: "TargetInfo \<Rightarrow> conn \<Rightarrow> SerializedModel \<Rightarrow> trace \<Rightarrow> trace" where
  "atModelDial ti c m tr \<equiv>
     atImport ti tr @ [(Import c (Bytes m), None),
                       logInfof ''opening API connection for target model'']"

abbreviation atUpload ::
    "TargetInfo \<Rightarrow> string \<Rightarrow> conn \<Rightarrow> SerializedModel \<Rightarrow> trace \<Rightarrow> trace" where
  "atUpload ti u c m tr \<equiv>
     atModelDial ti c m tr @ [(APIOpen (apiInfo ti u), None),
                              logInfof ''uploading binaries into target model'']"

abbreviation uploadConfig :: "env \<Rightarrow> SerializedModel \<Rightarrow> conn \<Rightarrow> UploadBinariesConfig" where
  "uploadConfig e m c \<equiv>
     \<lparr>Cfg_Charms = Charms m, CharmDownloader = Config_CharmDownloader e, CharmUploader = c,
      Cfg_Tools = Tools m, ToolsDownloader = Config_ToolsDownloader e, ToolsUploader = c\<rparr>"

abbreviation importFails :: "env \<Rightarrow> TargetInfo \<Rightarrow> string \<Rightarrow> trace \<Rightarrow> bool" where
  "importFails e ti u tr \<equiv>
     (\<exists>err. Export_ret e (atExport tr) = Inl err)
     \<or> (\<exists>m. Export_ret e (atExport tr) = Inr m
           \<and> ((\<exists>err. APIOpen_ret e (atDial tr) (apiInfo ti []) = Inl err)
              \<or> (\<exists>c. APIOpen_ret e (atDial tr) (apiInfo ti []) = Inr c
                    \<and> ((\<exists>err. Import_ret e (atImport ti tr) c (Bytes m) = Some err)
                       \<or> (Import_ret e (atImport ti tr) c (Bytes m) = None
                          \<and> ((\<exists>err. APIOpen_ret e (atModelDial ti c m tr) (apiInfo ti u) = Inl err)
                             \<or> (\<exists>c' err. APIOpen_ret e (atModelDial ti c m tr) (apiInfo ti u) = Inr c'
                                   \<and> UploadBinaries_ret e (atUpload ti u c m tr) (uploadConfig e m c')
                                       = Some err)))))))"

section \<open>Properties\<close>

subsection \<open>Auxiliary facts\<close>

lemma itoa_1: "itoa 1 = ''1''"
  by (simp add: itoa_def decimal.simps)

lemma validate_done: "validateMinionReports reports_done (status0\<lparr>Phase := SUCCESS\<rparr>) = None"
  by (simp add: validateMinionReports_def reports_done_def status0_def itoa_1)

lemma validate_failed: "validateMinionReports reports_failed (status0\<lparr>Phase := SUCCESS\<rparr>) = None"
  by (simp add: validateMinionReports_def reports_failed_def status0_def itoa_1)

lemma phasesSet_append: "phasesSet (tr @ tr') = phasesSet tr @ phasesSet tr'"
  by (induction tr rule: phasesSet.induct) simp_all

lemma minionLoop_phasesSet:
  "phasesSet (snd (minionLoop e status waitPolicy prev evs tr)) = phasesSet tr"
proof (induction e status waitPolicy prev evs tr rule: minionLoop.induct)
  case (4 e status waitPolicy reports evs tr)
  then show ?case
    by (auto simp add: Let_def phasesSet_append split: sum.splits option.splits if_splits)
qed (simp_all add: phasesSet_append)

lemma waitForMinions_phasesSet:
  "phasesSet (snd (waitForMinions e status waitPolicy tr)) = phasesSet tr"
  by (simp add: waitForMinions_def Let_def phasesSet_append minionLoop_phasesSet
      split: option.split)

lemma minionLoop_nil:
  "fst (minionLoop e status waitPolicy prev evs tr) = Returned None \<Longrightarrow>
   \<exists>h r. GetMinionReports_ret e h = Inr r \<and> validateMinionReports r status = None
         \<and> UnknownCount r = 0 \<and> FailedMachines r = [] \<and> FailedUnits r = []"
proof (induction e status waitPolicy prev evs tr rule: minionLoop.induct)
  case (4 e status waitPolicy reports evs tr)
  then show ?case
    by (fastforce simp add: Let_def split: sum.splits option.splits if_splits)
qed simp_all

lemma added_append [simp]: "added tr (tr @ xs) = xs"
  by (simp add: added_def)

lemma added_Nil [simp]: "added [] tr = tr"
  by (simp add: added_def)

lemma minionLoop_extends:
  "\<exists>xs. snd (minionLoop e status waitPolicy prev evs tr) = tr @ xs"
proof (induction e status waitPolicy prev evs tr rule: minionLoop.induct)
  case (4 e status waitPolicy reports evs tr)
  then show ?case
    by (fastforce simp add: Let_def split: sum.splits option.splits if_splits)
next
  case (5 e status waitPolicy reports evs tr)
  then show ?case by fastforce
qed simp_all

lemma waitForMinions_extends:
  "\<exists>rest. snd (waitForMinions e status waitPolicy tr)
          = tr @ (Now, None)
               # (After (maxMinionWait - Time_Sub (Now_ret e tr) (PhaseChangedTime status)), None)
               # rest"
proof -
  let ?d = "maxMinionWait - Time_Sub (Now_ret e tr) (PhaseChangedTime status)"
  let ?tr1 = "tr @ [(Now, None), (After ?d, None),
                 (Log INFO
                    ''waiting for minions to report back for migration phase %s (will wait up to %s)''
                    [LP (Phase status), LD (truncDuration ?d)], None)]"
  let ?w = "WatchMinionReports_ret e ?tr1"
  let ?tr2 = "?tr1 @ [(WatchMinionReports, ?w)]"
  let ?a = "CatacombAdd_ret e ?tr2"
  let ?tr3 = "?tr2 @ [(CatacombAdd, ?a)] @ [(After minionWaitLogInterval, None)]"
  obtain xs where
    xs: "snd (minionLoop e status waitPolicy MinionReports_zero (minionEvents e) ?tr3) = ?tr3 @ xs"
    using minionLoop_extends by blast
  show ?thesis
    using xs by (cases ?w; cases ?a) (simp_all add: waitForMinions_def Let_def)
qed

lemma waitForMinions_firstAfter:
  "firstAfter (added tr (snd (waitForMinions e status waitPolicy tr)))
     = Some (maxMinionWait - Time_Sub (Now_ret e tr) (PhaseChangedTime status))"
  using waitForMinions_extends [of e status waitPolicy tr] by auto

lemma sint_maxMinionWait: "sint maxMinionWait = 900000000000"
  by (simp add: maxMinionWait_def Minute_def Second_def)

lemma maxWait_sint:
  assumes "900000000000 - 2 ^ 63 < t1 - t0" "t1 - t0 < 2 ^ 63"
  shows "sint (maxMinionWait - Time_Sub t1 t0) = 900000000000 - (t1 - t0)"
proof -
  have ts: "Time_Sub t1 t0 = word_of_int (t1 - t0)"
    using assms by (simp add: Time_Sub_def Let_def)
  have mw: "maxMinionWait = word_of_int 900000000000"
    by (simp add: maxMinionWait_def Minute_def Second_def)
  have "maxMinionWait - Time_Sub t1 t0 = word_of_int (900000000000 - (t1 - t0))"
    unfolding ts mw by simp
  moreover have s: "sint (word_of_int x :: 64 word) = x"
    if "- (2 ^ 63) \<le> x" "x < 2 ^ 63" for x :: int
    using that by (simp add: sint_sbintrunc' signed_take_bit_int_eq_self)
  have "sint (word_of_int (900000000000 - (t1 - t0)) :: 64 word)
                   = 900000000000 - (t1 - t0)"
    by (rule s) (use assms in simp_all)
  ultimately show ?thesis by (simp only:)
qed

lemma validate_silent: "validateMinionReports reports_silent (status0\<lparr>Phase := SUCCESS\<rparr>) = None"
  by (simp add: validateMinionReports_def reports_silent_def status0_def itoa_1)

lemma openAPIConnForModel_phasesSet:
  "phasesSet (snd (openAPIConnForModel e ti u tr)) = phasesSet tr"
  by (simp add: openAPIConnForModel_def Let_def phasesSet_append)

lemma doIMPORT_phasesSet: "phasesSet (snd (doIMPORT e ti u tr)) = phasesSet tr"
  by (simp add: doIMPORT_def openAPIConn_def openAPIConnForModel_def Let_def phasesSet_append
      split: sum.split option.split)

lemma doVALIDATION_phasesSet: "phasesSet (snd (doVALIDATION e ti u tr)) = phasesSet tr"
  by (simp add: doVALIDATION_def activateModel_def openAPIConn_def openAPIConnForModel_def
        Let_def phasesSet_append split: sum.split option.split)

lemma doABORT_phasesSet: "phasesSet (snd (doABORT e ti u tr)) = phasesSet tr"
  by (simp add: doABORT_def removeImportedModel_def openAPIConn_def openAPIConnForModel_def
        Let_def phasesSet_append split: sum.split option.split)

lemma doREAP_phasesSet: "phasesSet (snd (doREAP e tr)) = phasesSet tr"
  by (simp add: doREAP_def phasesSet_append split: option.split)

lemma doSUCCESS_phasesSet: "phasesSet (snd (doSUCCESS e status tr)) = phasesSet tr"
  using waitForMinions_phasesSet [of e status waitForAll tr]
  by (auto simp add: doSUCCESS_def split: prod.splits wait.splits)

lemma dispatch_phasesSet: "phasesSet (snd (dispatch e status tr)) = phasesSet tr"
  using doSUCCESS_phasesSet [of e status tr]
  by (cases "Phase status")
     (auto simp add: dispatch_def returned_def doQUIESCE_def doREADONLY_def doPRECHECK_def
        doLOGTRANSFER_def doIMPORT_phasesSet doVALIDATION_phasesSet doABORT_phasesSet
        doREAP_phasesSet split: prod.splits wait.splits)

lemma iteration_next:
  assumes "dispatch e status tr = (Returned (Inr (p, None)), tr1)"
    and "\<not> killed e tr1"
    and "SetPhase_ret e (tr1 @ [(Log INFO ''setting migration phase to %s'' [LP p], None)]) p = None"
  shows "iteration e status tr
           = (if modelHasMigrated p then Exit ErrUninstall
              else if IsTerminal p then Exit ErrDoneForNow
              else Continue (status\<lparr>Phase := p\<rparr>),
              tr1 @ [(Log INFO ''setting migration phase to %s'' [LP p], None),
                     (SetPhase p, None)])"
  using assms by (simp add: iteration_def Let_def)

lemma run_loop_Continue:
  "iteration e status tr = (Continue status', tr') \<Longrightarrow> run_loop e status tr = run_loop e status' tr'"
  by (simp add: run_loop.simps)

lemma run_loop_Exit:
  "iteration e status tr = (Exit err, tr') \<Longrightarrow> run_loop e status tr = (Returned err, tr')"
  by (simp add: run_loop.simps)

subsection \<open>The outcomes of the minion wait in SUCCESS\<close>

text \<open>
  C3. Whenever the minion wait of the SUCCESS handler returns nil, or an error whose cause
  is errMinionReportTimeout or errMinionReportFailed, the handler returns
  (LOGTRANSFER, nil), and the driver, unless killed or refused by SetPhase, persists
  LOGTRANSFER and goes on with it. Whenever the wait returns any other error, the handler
  returns (SUCCESS, that error traced), and the driver leaves \<open>run\<close> with it, having
  persisted no phase.
\<close>

theorem doSUCCESS_outcomes:
  assumes wait: "waitForMinions e status waitForAll tr = (Returned err, tr1)"
  shows "(err = None \<or> map_option Cause err = Some errMinionReportTimeout
            \<or> map_option Cause err = Some errMinionReportFailed \<longrightarrow>
            doSUCCESS e status tr = (Returned (LOGTRANSFER, None), tr1)
            \<and> (Phase status = SUCCESS \<longrightarrow> \<not> killed e tr1 \<longrightarrow>
                 SetPhase_ret e
                   (tr1 @ [(Log INFO ''setting migration phase to %s'' [LP LOGTRANSFER], None)])
                   LOGTRANSFER = None \<longrightarrow>
                 iteration e status tr
                   = (Continue (status\<lparr>Phase := LOGTRANSFER\<rparr>),
                      tr1 @ [(Log INFO ''setting migration phase to %s'' [LP LOGTRANSFER], None),
                             (SetPhase LOGTRANSFER, None)])))
       \<and> (\<forall>x. err = Some x \<longrightarrow> Cause x \<noteq> errMinionReportTimeout \<longrightarrow>
                Cause x \<noteq> errMinionReportFailed \<longrightarrow>
            doSUCCESS e status tr = (Returned (SUCCESS, Some (Trace x)), tr1)
            \<and> (Phase status = SUCCESS \<longrightarrow>
                 run_loop e status tr = (Returned (Trace (Trace x)), tr1)
                 \<and> phasesSet tr1 = phasesSet tr))"
proof -
  have ps: "phasesSet tr1 = phasesSet tr"
    using waitForMinions_phasesSet [of e status waitForAll tr] wait by simp
  show ?thesis
    using wait ps
    by (auto simp add: doSUCCESS_def iteration_def dispatch_def Let_def modelHasMigrated_def
          run_loop.simps)
qed

text \<open>
  The theorem at the concrete migration: once with a deadline that passes after a report
  with silent agents, once with a catacomb that dies during the wait.
\<close>

theorem doSUCCESS_outcomes_witness:
  "waitForMinions (env_ok\<lparr>minionEvents := [MTimeout]\<rparr>) (status0\<lparr>Phase := SUCCESS\<rparr>)
       waitForAll []
     = (Returned (Some (Trace errMinionReportTimeout)),
        [(Now, None), (After 899000000000, None),
         (Log INFO
            ''waiting for minions to report back for migration phase %s (will wait up to %s)''
            [LP SUCCESS, LD 899000000000], None),
         (WatchMinionReports, None), (CatacombAdd, None), (After 30000000000, None),
         (Log ERROR ''no agents reported in time for migration phase SUCCESS'' [], None)])
   \<and> fst (doSUCCESS (env_ok\<lparr>minionEvents := [MTimeout]\<rparr>) (status0\<lparr>Phase := SUCCESS\<rparr>) [])
       = Returned (LOGTRANSFER, None)
   \<and> fst (iteration (env_ok\<lparr>minionEvents := [MTimeout]\<rparr>) (status0\<lparr>Phase := SUCCESS\<rparr>) [])
       = Continue (status0\<lparr>Phase := LOGTRANSFER\<rparr>)
   \<and> fst (waitForMinions (env_ok\<lparr>minionEvents := [MDying]\<rparr>) (status0\<lparr>Phase := SUCCESS\<rparr>)
            waitForAll [])
       = Returned (Some ErrDying)
   \<and> fst (doSUCCESS (env_ok\<lparr>minionEvents := [MDying]\<rparr>) (status0\<lparr>Phase := SUCCESS\<rparr>) [])
       = Returned (SUCCESS, Some (Trace ErrDying))
   \<and> fst (run_loop (env_ok\<lparr>minionEvents := [MDying]\<rparr>) (status0\<lparr>Phase := SUCCESS\<rparr>) [])
       = Returned (Trace (Trace ErrDying))
   \<and> phasesSet (snd (run_loop (env_ok\<lparr>minionEvents := [MDying]\<rparr>)
                        (status0\<lparr>Phase := SUCCESS\<rparr>) []))
       = []"
proof -
  let ?t = "env_ok\<lparr>minionEvents := [MTimeout]\<rparr>" and ?d = "env_ok\<lparr>minionEvents := [MDying]\<rparr>"
  let ?s = "status0\<lparr>Phase := SUCCESS\<rparr>"
  have wt: "waitForMinions ?t ?s waitForAll []
     = (Returned (Some (Trace errMinionReportTimeout)),
        [(Now, None), (After 899000000000, None),
         (Log INFO
            ''waiting for minions to report back for migration phase %s (will wait up to %s)''
            [LP SUCCESS, LD 899000000000], None),
         (WatchMinionReports, None), (CatacombAdd, None), (After 30000000000, None),
         (Log ERROR ''no agents reported in time for migration phase SUCCESS'' [], None)])"
    by (simp add: waitForMinions_def env_ok_def status0_def Let_def maxMinionWait_def
          Minute_def Second_def Time_Sub_def truncDuration_def minionWaitLogInterval_def
          formatMinionTimeout_def IsZero_def signed_divide_int_def)
  obtain trd where wd: "waitForMinions ?d ?s waitForAll [] = (Returned (Some ErrDying), trd)"
    by (simp add: waitForMinions_def env_ok_def Let_def)
  have k: "\<not> killed ?t tr" and sp: "SetPhase_ret ?t tr p = None" for tr p
    by (simp_all add: env_ok_def)
  have ph: "Phase ?s = SUCCESS" by simp
  from doSUCCESS_outcomes [OF wt] doSUCCESS_outcomes [OF wd] wt wd k sp ph
  show ?thesis by simp
qed

subsection \<open>Reports of another migration or another phase\<close>

text \<open>
  C6. Whenever the reports fetched on a change of the reports watcher carry a migration id
  other than "<ModelUUID>:<Attempt>" of the status, or a phase other than the phase of the
  status, the wait returns the validation error at once, whatever the policy and the
  reports seen before: it adds nothing to the trace but the fetch (no failure is logged or
  counted), and the error is neither nil, nor errMinionReportFailed, nor
  errMinionReportTimeout.
\<close>

theorem mismatching_reports_rejected:
  assumes fetch: "GetMinionReports_ret e tr = Inr reports"
    and mismatch: "MigrationId reports \<noteq> ModelUUID status @ '':'' @ itoa (Attempt status)
                   \<or> ReportsPhase reports \<noteq> Phase status"
  shows "\<exists>err. validateMinionReports reports status = Some err
           \<and> minionLoop e status waitPolicy prev (MChanges # evs) tr
               = (Returned (Some (Trace err)), tr @ [(GetMinionReports, None)])
           \<and> Cause (Trace err) \<noteq> errMinionReportFailed
           \<and> Cause (Trace err) \<noteq> errMinionReportTimeout"
  using assms by (auto simp add: validateMinionReports_def Let_def)

theorem mismatching_reports_rejected_witness:
  "GetMinionReports_ret (env_ok\<lparr>GetMinionReports_ret := (\<lambda>tr. Inr reports_stale)\<rparr>) []
     = Inr reports_stale
   \<and> MigrationId reports_stale \<noteq> ModelUUID status0 @ '':'' @ itoa (Attempt status0)
   \<and> minionLoop (env_ok\<lparr>GetMinionReports_ret := (\<lambda>tr. Inr reports_stale)\<rparr>) status0
        waitForAll MinionReports_zero [MChanges] []
       = (Returned (Some (Trace
            (Errorf ''unexpected migration id in minion reports, got %v, expected %v''
               [S ''m1:0'', S ''m1:1'']))),
          [(GetMinionReports, None)])"
proof -
  let ?e = "env_ok\<lparr>GetMinionReports_ret := (\<lambda>tr. Inr reports_stale)\<rparr>"
  have f: "GetMinionReports_ret ?e [] = Inr reports_stale" by simp
  have m: "MigrationId reports_stale \<noteq> ModelUUID status0 @ '':'' @ itoa (Attempt status0)"
    by (simp add: reports_stale_def status0_def itoa_1)
  have v: "validateMinionReports reports_stale status0
             = Some (Errorf ''unexpected migration id in minion reports, got %v, expected %v''
                       [S ''m1:0'', S ''m1:1''])"
    by (simp add: validateMinionReports_def reports_stale_def status0_def itoa_1)
  from mismatching_reports_rejected [OF f disjI1, OF m, of waitForAll MinionReports_zero "[]"] v
  show ?thesis using f m by auto
qed

subsection \<open>The two wait policies\<close>

text \<open>
  C7. Let the reports fetched on a change of the reports watcher be valid for the status.
  Under failFast, if they list a failed machine or unit, the wait returns
  errMinionReportFailed. Under waitForAll, if UnknownCount is not 0 the wait does not
  return but goes on with the next event (having logged the failures, if any); if
  UnknownCount is 0 it returns errMinionReportFailed when a machine or unit failed and nil
  otherwise. And under waitForAll the wait returns nil only if some fetch returned valid
  reports with UnknownCount 0 and no failure.
\<close>

theorem wait_policies:
  assumes fetch: "GetMinionReports_ret e tr = Inr reports"
    and valid: "validateMinionReports reports status = None"
  shows "(FailedMachines reports \<noteq> [] \<or> FailedUnits reports \<noteq> [] \<longrightarrow>
            fst (minionLoop e status failFast prev (MChanges # evs) tr)
              = Returned (Some (Trace errMinionReportFailed)))
       \<and> (UnknownCount reports \<noteq> 0 \<longrightarrow>
            minionLoop e status waitForAll prev (MChanges # evs) tr
              = minionLoop e status waitForAll reports evs
                  (tr @ (GetMinionReports, None)
                     # (if FailedMachines reports = [] \<and> FailedUnits reports = [] then []
                        else [(Log ERROR (formatMinionFailure reports) [], None)])))
       \<and> (UnknownCount reports = 0 \<longrightarrow>
            fst (minionLoop e status waitForAll prev (MChanges # evs) tr)
              = Returned (if FailedMachines reports = [] \<and> FailedUnits reports = [] then None
                          else Some (Trace errMinionReportFailed)))
       \<and> (fst (minionLoop e status waitForAll prev0 evs0 tr0) = Returned None \<longrightarrow>
            (\<exists>h r. GetMinionReports_ret e h = Inr r \<and> validateMinionReports r status = None
                  \<and> UnknownCount r = 0 \<and> FailedMachines r = [] \<and> FailedUnits r = []))"
proof (intro conjI impI)
  assume "FailedMachines reports \<noteq> [] \<or> FailedUnits reports \<noteq> []"
  with fetch valid
  show "fst (minionLoop e status failFast prev (MChanges # evs) tr)
          = Returned (Some (Trace errMinionReportFailed))"
    by (auto simp add: Let_def failFast_def)
next
  assume "UnknownCount reports \<noteq> 0"
  with fetch valid
  show "minionLoop e status waitForAll prev (MChanges # evs) tr
          = minionLoop e status waitForAll reports evs
              (tr @ (GetMinionReports, None)
                 # (if FailedMachines reports = [] \<and> FailedUnits reports = [] then []
                    else [(Log ERROR (formatMinionFailure reports) [], None)]))"
    by (auto simp add: Let_def failFast_def waitForAll_def)
next
  assume "UnknownCount reports = 0"
  with fetch valid
  show "fst (minionLoop e status waitForAll prev (MChanges # evs) tr)
          = Returned (if FailedMachines reports = [] \<and> FailedUnits reports = [] then None
                      else Some (Trace errMinionReportFailed))"
    by (auto simp add: Let_def failFast_def waitForAll_def)
next
  assume "fst (minionLoop e status waitForAll prev0 evs0 tr0) = Returned None"
  then show "\<exists>h r. GetMinionReports_ret e h = Inr r \<and> validateMinionReports r status = None
                  \<and> UnknownCount r = 0 \<and> FailedMachines r = [] \<and> FailedUnits r = []"
    by (rule minionLoop_nil)
qed

text \<open>
  The theorem at the concrete migration: a report with a failed machine and two agents
  still silent ends the wait under failFast and not under waitForAll, where the deadline
  ends it; a report of success from all ends the wait with nil.
\<close>

theorem wait_policies_witness:
  "GetMinionReports_ret env_failed [] = Inr reports_failed
   \<and> validateMinionReports reports_failed (status0\<lparr>Phase := SUCCESS\<rparr>) = None
   \<and> FailedMachines reports_failed \<noteq> []
   \<and> UnknownCount reports_failed \<noteq> 0
   \<and> fst (minionLoop env_failed (status0\<lparr>Phase := SUCCESS\<rparr>) failFast MinionReports_zero
            [MChanges, MTimeout] [])
       = Returned (Some (Trace errMinionReportFailed))
   \<and> fst (minionLoop env_failed (status0\<lparr>Phase := SUCCESS\<rparr>) waitForAll MinionReports_zero
            [MChanges, MTimeout] [])
       = Returned (Some (Trace errMinionReportTimeout))
   \<and> GetMinionReports_ret env_ok [] = Inr reports_done
   \<and> UnknownCount reports_done = 0
   \<and> fst (minionLoop env_ok (status0\<lparr>Phase := SUCCESS\<rparr>) waitForAll MinionReports_zero
            [MChanges] [])
       = Returned None
   \<and> (\<exists>h r. GetMinionReports_ret env_ok h = Inr r
          \<and> validateMinionReports r (status0\<lparr>Phase := SUCCESS\<rparr>) = None
          \<and> UnknownCount r = 0 \<and> FailedMachines r = [] \<and> FailedUnits r = [])"
proof -
  let ?s = "status0\<lparr>Phase := SUCCESS\<rparr>"
  have f: "GetMinionReports_ret env_failed [] = Inr reports_failed"
    by (simp add: env_failed_def)
  have g: "GetMinionReports_ret env_ok [] = Inr reports_done"
    by (simp add: env_ok_def)
  have r: "FailedMachines reports_failed \<noteq> []" "UnknownCount reports_failed \<noteq> 0"
    by (simp_all add: reports_failed_def)
  have d: "UnknownCount reports_done = 0" "FailedMachines reports_done = []"
      "FailedUnits reports_done = []"
    by (simp_all add: reports_done_def)
  note a = wait_policies [OF f validate_failed, of MinionReports_zero "[MTimeout]"
             MinionReports_zero "[]" "[]"]
  note b = wait_policies [OF g validate_done, of MinionReports_zero "[]"
             MinionReports_zero "[MChanges]" "[]"]
  from a r have 1: "fst (minionLoop env_failed ?s failFast MinionReports_zero
                           [MChanges, MTimeout] []) = Returned (Some (Trace errMinionReportFailed))"
    by simp
  from a r have 2: "fst (minionLoop env_failed ?s waitForAll MinionReports_zero
                           [MChanges, MTimeout] []) = Returned (Some (Trace errMinionReportTimeout))"
    by simp
  from b d have 3: "fst (minionLoop env_ok ?s waitForAll MinionReports_zero [MChanges] [])
                      = Returned None"
    by simp
  from b 3 have 4: "\<exists>h r. GetMinionReports_ret env_ok h = Inr r
          \<and> validateMinionReports r ?s = None
          \<and> UnknownCount r = 0 \<and> FailedMachines r = [] \<and> FailedUnits r = []"
    by blast
  from f g validate_failed r d 1 2 3 4 show ?thesis by blast
qed

subsection \<open>The deadline of the minion wait\<close>

text \<open>
  C5, amended. Let the status have PhaseChangedTime t0 and let the clock read t1 at the
  entry of the minion wait, with t1 - t0 strictly between 15 minutes - 2^63 ns and
  2^63 ns (some 292 years either way), so that neither \<open>Time.Sub\<close> saturates nor the
  subtraction from maxMinionWait overflows. Then the duration handed to the first
  \<open>Clock.After\<close> is maxMinionWait - (t1 - t0), with maxMinionWait 15 minutes: the
  deadline is at t0 + 15 minutes.
\<close>

theorem deadline_anchored:
  assumes t0: "PhaseChangedTime status = t0" and t1: "Now_ret e tr = t1"
    and lo: "900000000000 - 2 ^ 63 < t1 - t0" and hi: "t1 - t0 < 2 ^ 63"
  shows "\<exists>d. firstAfter (added tr (snd (waitForMinions e status waitPolicy tr))) = Some d
           \<and> sint maxMinionWait = 15 * 60 * 1000000000
           \<and> sint d = sint maxMinionWait - (t1 - t0)
           \<and> t1 + sint d = t0 + sint maxMinionWait"
  using waitForMinions_firstAfter [of tr e status waitPolicy] maxWait_sint [OF lo hi] t0 t1
  by (simp add: sint_maxMinionWait)

theorem deadline_anchored_witness:
  "PhaseChangedTime status0 = 0 \<and> Now_ret env_ok [] = 1000000000
   \<and> (900000000000 - 2 ^ 63 < (1000000000 - 0 :: int)) \<and> ((1000000000 - 0 :: int) < 2 ^ 63)
   \<and> (\<exists>d. firstAfter (added [] (snd (waitForMinions env_ok status0 waitForAll []))) = Some d
           \<and> sint d = 899000000000 \<and> 1000000000 + sint d = 900000000000)"
proof -
  have t0: "PhaseChangedTime status0 = 0" by (simp add: status0_def)
  have t1: "Now_ret env_ok [] = 1000000000" by (simp add: env_ok_def)
  have lo: "900000000000 - 2 ^ 63 < (1000000000 - 0 :: int)" by simp
  have hi: "(1000000000 - 0 :: int) < 2 ^ 63" by simp
  from deadline_anchored [OF t0 t1 lo hi, of waitForAll] t0 t1
  show ?thesis by auto
qed

text \<open>
  C5 as stated fails when the clock is more than 2^63 - 1 ns after the phase change:
  \<open>Time.Sub\<close> returns the largest Duration, and the duration handed to \<open>Clock.After\<close>
  is 15 minutes less that, not 15 minutes less the time elapsed.
\<close>

theorem deadline_saturates:
  "firstAfter (added [] (snd (waitForMinions env_late status0 waitForAll [])))
     = Some 9223372936854775809
   \<and> sint (9223372936854775809 :: 64 word)
       \<noteq> sint maxMinionWait - (Now_ret env_late [] - PhaseChangedTime status0)
   \<and> Now_ret env_late [] + sint (9223372936854775809 :: 64 word)
       \<noteq> PhaseChangedTime status0 + sint maxMinionWait"
proof -
  have "firstAfter (added [] (snd (waitForMinions env_late status0 waitForAll [])))
          = Some 9223372936854775809"
    using waitForMinions_firstAfter [of "[]" env_late status0 waitForAll]
    by (simp add: env_late_def env_ok_def status0_def Time_Sub_def Let_def maxMinionWait_def
          Minute_def Second_def maxDuration_def)
  moreover have "sint (9223372936854775809 :: 64 word) = - 9223371136854775807"
    by simp
  moreover have "Now_ret env_late [] = 10000000000000000000" "PhaseChangedTime status0 = 0"
    by (simp_all add: env_late_def status0_def)
  ultimately show ?thesis
    by (simp add: sint_maxMinionWait)
qed

subsection \<open>A failing Reap\<close>

lemma reap_failure:
  assumes "Phase status = REAP" and "Reap_ret e tr = Some err"
  shows "run_loop e status tr = (Returned (Trace (Trace err)), tr @ [(Reap, Some err)])"
  using assms
  by (simp add: run_loop.simps iteration_def dispatch_def returned_def doREAP_def)

text \<open>
  C2 does not hold of the code. With a \<open>Reap\<close> that fails, the REAP handler returns
  (REAPFAILED, the error traced); the driver, seeing a non-nil error, leaves \<open>run\<close> with
  that error at once: \<open>SetPhase\<close> is never called, REAPFAILED is not persisted, and the
  error is not \<open>ErrUninstall\<close>.
\<close>

theorem reap_failure_not_persisted:
  "doREAP env_reap_fails []
     = ((REAPFAILED, Some (Trace (External ''reap failed''))),
        [(Reap, Some (External ''reap failed''))])
   \<and> run_loop env_reap_fails (status0\<lparr>Phase := REAP\<rparr>) []
       = (Returned (Trace (Trace (External ''reap failed''))),
          [(Reap, Some (External ''reap failed''))])
   \<and> Cause (Trace (Trace (External ''reap failed''))) \<noteq> ErrUninstall"
  by (simp add: run_loop.simps iteration_def dispatch_def returned_def doREAP_def
        env_reap_fails_def env_ok_def)

subsection \<open>The diagnostic of a timeout\<close>

text \<open>
  When the deadline passes the wait logs \<open>formatMinionTimeout\<close> of the last reports and
  returns errMinionReportTimeout; with no reports yet the message names the phase.
\<close>

lemma minionLoop_timeout:
  "minionLoop e status waitPolicy reports (MTimeout # evs) tr
     = (Returned (Some (Trace errMinionReportTimeout)),
        tr @ [(Log ERROR (formatMinionTimeout reports status) [], None)])"
  by simp

lemma formatMinionTimeout_zero:
  "formatMinionTimeout MinionReports_zero status
     = ''no agents reported in time for migration phase '' @ Phase_String (Phase status)"
  by (simp add: formatMinionTimeout_def IsZero_def)

text \<open>
  C9 does not hold of the code when reports have arrived. With two agents silent at the
  deadline of the SUCCESS phase, the message logged lists the sampled agents, but holds
  the two \<open>%s\<close> of its format where the number of agents and the phase were meant to be.
\<close>

theorem timeout_message_omits_phase:
  "minionLoop env_silent (status0\<lparr>Phase := SUCCESS\<rparr>) waitForAll MinionReports_zero
         (minionEvents env_silent) []
       = (Returned (Some (Trace errMinionReportTimeout)),
          [(GetMinionReports, None),
           (Log ERROR
             ''%s agents failed to report in time for migration phase %s including:machines: 42; units: mysql/0''
             [], None)])"
proof -
  have f: "GetMinionReports_ret env_silent tr = Inr reports_silent" for tr
    by (simp add: env_silent_def)
  have ev: "minionEvents env_silent = [MChanges, MTimeout]"
    by (simp add: env_silent_def)
  have m: "formatMinionTimeout reports_silent (status0\<lparr>Phase := SUCCESS\<rparr>)
             = ''%s agents failed to report in time for migration phase %s including:machines: 42; units: mysql/0''"
    by (simp add: formatMinionTimeout_def reports_silent_def IsZero_def MinionReports_zero_def)
  have u: "UnknownCount reports_silent \<noteq> 0" "FailedMachines reports_silent = []"
      "FailedUnits reports_silent = []"
    by (simp_all add: reports_silent_def)
  show ?thesis
    by (simp add: ev f validate_silent m u Let_def)
qed

subsection \<open>A failing import\<close>







lemma doIMPORT_VALIDATION_iff:
  "fst (doIMPORT e ti u tr) = (VALIDATION, None) \<longleftrightarrow> \<not> importFails e ti u tr"
  by (auto simp add: doIMPORT_def openAPIConn_def openAPIConnForModel_def Let_def
      split: sum.splits option.splits)



subsection \<open>Waiting for the migration to become active\<close>

lemma waitActiveLoop_calls:
  "(a, b) \<in> set (snd (waitActiveLoop e evs tr))
     \<Longrightarrow> (a, b) \<in> set tr \<or> a = GetMigrationStatus \<or> a = Unlock"
proof (induction e evs tr rule: waitActiveLoop.induct)
  case (3 e evs tr)
  let ?r = "GetMigrationStatus_ret e tr"
  let ?tr1 = "tr @ [(GetMigrationStatus, err_of ?r)]"
  let ?u = "Unlock_ret e ?tr1"
  let ?tr2 = "?tr1 @ [(Unlock, ?u)]"
  show ?case
  proof (cases "IsCodeNotFound (err_of ?r)")
    case True
    show ?thesis
    proof (cases ?u)
      case None
      with True "3.prems" have "(a, b) \<in> set (snd (waitActiveLoop e evs ?tr2))"
        by (simp add: Let_def)
      with "3.IH"(1) [OF refl refl True refl refl None]
      show ?thesis by auto
    next
      case (Some x)
      with True "3.prems" show ?thesis by (auto simp add: Let_def)
    qed
  next
    case False
    show ?thesis
    proof (cases ?r)
      case (Inl x)
      with False "3.prems" show ?thesis by (auto simp add: Let_def)
    next
      case (Inr st)
      show ?thesis
      proof (cases "\<not> modelHasMigrated (Phase st) \<and> IsTerminal (Phase st)")
        case True
        with False Inr "3.prems" have "(a, b) \<in> set (snd (waitActiveLoop e evs ?tr1))"
          by (simp add: Let_def)
        with "3.IH"(2) [OF refl refl False Inr] True
        show ?thesis by auto
      next
        case F: False
        with False Inr "3.prems" show ?thesis by (auto simp add: Let_def split: if_splits)
      qed
    qed
  qed
qed simp_all

lemma waitForActiveMigration_calls:
  "fst ` set (snd (waitForActiveMigration e []))
     \<subseteq> {Watch, CatacombAdd, GetMigrationStatus, Unlock, WatcherKill}"
proof
  fix a
  assume "a \<in> fst ` set (snd (waitForActiveMigration e []))"
  then obtain b where ab: "(a, b) \<in> set (snd (waitForActiveMigration e []))"
    by auto
  let ?l = "waitActiveLoop e (activeEvents e) [(Watch, None), (CatacombAdd, None)]"
  have l: "(a, b) \<in> set (snd ?l) \<Longrightarrow> a \<in> {Watch, CatacombAdd, GetMigrationStatus, Unlock}"
    using waitActiveLoop_calls [of a b e "activeEvents e" "[(Watch, None), (CatacombAdd, None)]"]
    by auto
  show "a \<in> {Watch, CatacombAdd, GetMigrationStatus, Unlock, WatcherKill}"
  proof (cases "Watch_ret e []")
    case (Some x)
    with ab show ?thesis by (simp add: waitForActiveMigration_def Let_def)
  next
    case None
    show ?thesis
    proof (cases "CatacombAdd_ret e [(Watch, None)]")
      case (Some x)
      with None ab show ?thesis by (auto simp add: waitForActiveMigration_def Let_def)
    next
      case N: None
      obtain r t where rt: "?l = (r, t)" by (cases ?l)
      with None N ab l show ?thesis
        by (cases r) (auto simp add: waitForActiveMigration_def Let_def)
    qed
  qed
qed

lemma notfound_unlock_fails:
  assumes "GetMigrationStatus_ret e tr = Inl err" "IsCodeNotFound (Some err)"
    and "Unlock_ret e (tr @ [(GetMigrationStatus, Some err)]) = Some u"
  shows "waitActiveLoop e (Changes # evs) tr
           = (Returned (Inl (Trace u)), tr @ [(GetMigrationStatus, Some err), (Unlock, Some u)])"
  using assms by (simp add: Let_def)

text \<open>
  C8 as stated fails where \<open>Unlock\<close> returns an error: the fetch of the status returns a
  not-found error, the worker calls \<open>Unlock\<close>, and then leaves the wait with the error of
  \<open>Unlock\<close>, traced, although a second tick of the watcher is at hand; \<open>run\<close> returns
  that error.
\<close>

theorem unlock_failure_ends_wait:
  "GetMigrationStatus_ret env_unlock_fails [(Watch, None), (CatacombAdd, None)]
     = Inl (CodeNotFound ''migration not found'')
   \<and> IsCodeNotFound (Some (CodeNotFound ''migration not found''))
   \<and> waitActiveLoop env_unlock_fails [Changes, Changes] [(Watch, None), (CatacombAdd, None)]
       = (Returned (Inl (Trace (External ''fortress shut down''))),
          [(Watch, None), (CatacombAdd, None),
           (GetMigrationStatus, Some (CodeNotFound ''migration not found'')),
           (Unlock, Some (External ''fortress shut down''))])
   \<and> waitActiveLoop env_unlock_fails [Changes, Changes] [(Watch, None), (CatacombAdd, None)]
       \<noteq> waitActiveLoop env_unlock_fails [Changes]
            [(Watch, None), (CatacombAdd, None),
             (GetMigrationStatus, Some (CodeNotFound ''migration not found'')),
             (Unlock, Some (External ''fortress shut down''))]
   \<and> run env_unlock_fails
       = (Returned (Trace (Trace (External ''fortress shut down''))),
          [(Watch, None), (CatacombAdd, None),
           (GetMigrationStatus, Some (CodeNotFound ''migration not found'')),
           (Unlock, Some (External ''fortress shut down'')), (WatcherKill, None)])"
  by (simp add: env_unlock_fails_def env_ok_def run_def waitForActiveMigration_def Let_def)

text \<open>
  C8, amended. At a tick of the migration watcher: if the fetch of the status returns a
  not-found error, the worker calls \<open>Unlock\<close> on the guard; if \<open>Unlock\<close> returns nil
  it waits for the next tick, and if \<open>Unlock\<close> returns an error the wait returns that
  error traced. If the phase fetched is DONE or REAPFAILED the wait returns
  \<open>ErrUninstall\<close>; if it is terminal otherwise (ABORTDONE) the status is skipped and the
  worker waits for the next tick; otherwise the status is returned. And whenever the wait
  returns an error, \<open>run\<close> returns it traced (its cause unchanged), having called nothing
  but the watcher, the catacomb, the fetch of the status and \<open>Unlock\<close>: no lockdown, no
  phase handler, no \<open>SetPhase\<close>.
\<close>

theorem waitForActiveMigration_ticks:
  "(\<forall>err. GetMigrationStatus_ret e tr = Inl err \<longrightarrow> IsCodeNotFound (Some err) \<longrightarrow>
          Unlock_ret e (tr @ [(GetMigrationStatus, Some err)]) = None \<longrightarrow>
          waitActiveLoop e (Changes # evs) tr
            = waitActiveLoop e evs (tr @ [(GetMigrationStatus, Some err), (Unlock, None)]))
   \<and> (\<forall>err x. GetMigrationStatus_ret e tr = Inl err \<longrightarrow> IsCodeNotFound (Some err) \<longrightarrow>
          Unlock_ret e (tr @ [(GetMigrationStatus, Some err)]) = Some x \<longrightarrow>
          waitActiveLoop e (Changes # evs) tr
            = (Returned (Inl (Trace x)),
               tr @ [(GetMigrationStatus, Some err), (Unlock, Some x)]))
   \<and> (\<forall>st. GetMigrationStatus_ret e tr = Inr st \<longrightarrow> modelHasMigrated (Phase st) \<longrightarrow>
          waitActiveLoop e (Changes # evs) tr
            = (Returned (Inl ErrUninstall), tr @ [(GetMigrationStatus, None)]))
   \<and> (\<forall>st. GetMigrationStatus_ret e tr = Inr st \<longrightarrow>
          IsTerminal (Phase st) \<and> \<not> modelHasMigrated (Phase st) \<longrightarrow>
          waitActiveLoop e (Changes # evs) tr
            = waitActiveLoop e evs (tr @ [(GetMigrationStatus, None)]))
   \<and> (\<forall>st. GetMigrationStatus_ret e tr = Inr st \<longrightarrow>
          \<not> IsTerminal (Phase st) \<and> \<not> modelHasMigrated (Phase st) \<longrightarrow>
          waitActiveLoop e (Changes # evs) tr
            = (Returned (Inr st), tr @ [(GetMigrationStatus, None)]))
   \<and> (\<forall>err tr'. waitForActiveMigration e [] = (Returned (Inl err), tr') \<longrightarrow>
          run e = (Returned (Trace err), tr')
          \<and> fst ` set tr' \<subseteq> {Watch, CatacombAdd, GetMigrationStatus, Unlock, WatcherKill})
   \<and> Cause (Trace ErrUninstall) = ErrUninstall
   \<and> (\<forall>p. modelHasMigrated p \<longleftrightarrow> p = DONE \<or> p = REAPFAILED)
   \<and> (\<forall>p. IsTerminal p \<and> \<not> modelHasMigrated p \<longleftrightarrow> p = ABORTDONE)"
proof (intro conjI allI impI)
  fix err tr'
  assume w: "waitForActiveMigration e [] = (Returned (Inl err), tr')"
  then show "run e = (Returned (Trace err), tr')"
    by (simp add: run_def)
  from w waitForActiveMigration_calls [of e]
  show "fst ` set tr' \<subseteq> {Watch, CatacombAdd, GetMigrationStatus, Unlock, WatcherKill}"
    by simp
next
  fix p
  show "(IsTerminal p \<and> \<not> modelHasMigrated p) = (p = ABORTDONE)"
    by (cases p) (simp_all add: modelHasMigrated_def)
qed (auto simp add: Let_def modelHasMigrated_def)

text \<open>
  The theorem at three concrete environments: no migration and then a migration that is
  DONE; an aborted migration and then an active one; no migration and an \<open>Unlock\<close> that
  fails.
\<close>

theorem waitForActiveMigration_ticks_witness:
  "run env_notfound_then_done
     = (Returned (Trace ErrUninstall),
        [(Watch, None), (CatacombAdd, None),
         (GetMigrationStatus, Some (CodeNotFound ''migration not found'')), (Unlock, None),
         (GetMigrationStatus, None), (WatcherKill, None)])
   \<and> waitForActiveMigration env_abortdone_then_active []
       = (Returned (Inr status0),
          [(Watch, None), (CatacombAdd, None), (GetMigrationStatus, None),
           (GetMigrationStatus, None), (WatcherKill, None)])
   \<and> waitActiveLoop env_unlock_fails [Changes] []
       = (Returned (Inl (Trace (External ''fortress shut down''))),
          [(GetMigrationStatus, Some (CodeNotFound ''migration not found'')),
           (Unlock, Some (External ''fortress shut down''))])"
proof -
  let ?e = env_notfound_then_done and ?f = env_abortdone_then_active
  let ?nf = "CodeNotFound ''migration not found''"
  let ?t0 = "[(Watch, None), (CatacombAdd, None)]"
  let ?t1 = "?t0 @ [(GetMigrationStatus, Some ?nf), (Unlock, None)]"
  have e1: "GetMigrationStatus_ret ?e ?t0 = Inl ?nf" "IsCodeNotFound (Some ?nf)"
      "Unlock_ret ?e (?t0 @ [(GetMigrationStatus, Some ?nf)]) = None"
    by (simp_all add: env_notfound_then_done_def env_ok_def)
  have e2: "GetMigrationStatus_ret ?e ?t1 = Inr (status0\<lparr>Phase := DONE\<rparr>)"
      "modelHasMigrated (Phase (status0\<lparr>Phase := DONE\<rparr>))"
    by (simp_all add: env_notfound_then_done_def env_ok_def modelHasMigrated_def)
  have l1: "waitActiveLoop ?e [Changes, Changes] ?t0 = waitActiveLoop ?e [Changes] ?t1"
    using waitForActiveMigration_ticks [of ?e ?t0 "[Changes]", THEN conjunct1, rule_format,
            OF e1]
    by simp
  have l2: "waitActiveLoop ?e [Changes] ?t1
              = (Returned (Inl ErrUninstall), ?t1 @ [(GetMigrationStatus, None)])"
    using waitForActiveMigration_ticks [of ?e ?t1 "[]", THEN conjunct2, THEN conjunct2,
            THEN conjunct1, rule_format, OF e2]
    by simp
  have w: "waitForActiveMigration ?e []
             = (Returned (Inl ErrUninstall), ?t1 @ [(GetMigrationStatus, None), (WatcherKill, None)])"
    using l1 l2 by (simp add: waitForActiveMigration_def env_notfound_then_done_def env_ok_def)
  have r: "run ?e = (Returned (Trace ErrUninstall),
             ?t1 @ [(GetMigrationStatus, None), (WatcherKill, None)])"
    using waitForActiveMigration_ticks [of ?e "[]" "[]", THEN conjunct2, THEN conjunct2,
            THEN conjunct2, THEN conjunct2, THEN conjunct2, THEN conjunct1, rule_format, OF w]
    by simp
  let ?t2 = "?t0 @ [(GetMigrationStatus, None)]"
  have f1: "GetMigrationStatus_ret ?f ?t0 = Inr (status0\<lparr>Phase := ABORTDONE\<rparr>)"
      "IsTerminal (Phase (status0\<lparr>Phase := ABORTDONE\<rparr>))
       \<and> \<not> modelHasMigrated (Phase (status0\<lparr>Phase := ABORTDONE\<rparr>))"
    by (simp_all add: env_abortdone_then_active_def env_ok_def modelHasMigrated_def)
  have f2: "GetMigrationStatus_ret ?f ?t2 = Inr status0"
      "\<not> IsTerminal (Phase status0) \<and> \<not> modelHasMigrated (Phase status0)"
    by (simp_all add: env_abortdone_then_active_def env_ok_def modelHasMigrated_def status0_def)
  have m1: "waitActiveLoop ?f [Changes, Changes] ?t0 = waitActiveLoop ?f [Changes] ?t2"
    using waitForActiveMigration_ticks [of ?f ?t0 "[Changes]", THEN conjunct2, THEN conjunct2,
            THEN conjunct2, THEN conjunct1, rule_format, OF f1]
    by simp
  have m2: "waitActiveLoop ?f [Changes] ?t2
              = (Returned (Inr status0), ?t2 @ [(GetMigrationStatus, None)])"
    using waitForActiveMigration_ticks [of ?f ?t2 "[]", THEN conjunct2, THEN conjunct2,
            THEN conjunct2, THEN conjunct2, THEN conjunct1, rule_format, OF f2]
    by simp
  have v: "waitForActiveMigration ?f []
             = (Returned (Inr status0), ?t2 @ [(GetMigrationStatus, None), (WatcherKill, None)])"
    using m1 m2 by (simp add: waitForActiveMigration_def env_abortdone_then_active_def env_ok_def)
  have u: "GetMigrationStatus_ret env_unlock_fails [] = Inl ?nf" "IsCodeNotFound (Some ?nf)"
      "Unlock_ret env_unlock_fails ([] @ [(GetMigrationStatus, Some ?nf)])
         = Some (External ''fortress shut down'')"
    by (simp_all add: env_unlock_fails_def env_ok_def)
  have x: "waitActiveLoop env_unlock_fails [Changes] []
             = (Returned (Inl (Trace (External ''fortress shut down''))),
                [] @ [(GetMigrationStatus, Some ?nf), (Unlock, Some (External ''fortress shut down''))])"
    by (rule waitForActiveMigration_ticks [THEN conjunct2, THEN conjunct1, rule_format, OF u])
  from r v x show ?thesis by simp
qed

subsection \<open>The status held by the driver\<close>

lemma iteration_Continue_frame:
  assumes "iteration e status tr = (Continue status', tr')"
  shows "status' = status\<lparr>Phase := Phase status'\<rparr>
         \<and> (\<exists>tr1. tr' = tr1 @ [(SetPhase (Phase status'), None)])"
  using assms
  by (auto simp add: iteration_def Let_def
      split: prod.splits wait.splits sum.splits option.splits if_splits)

lemma loop_after_frame:
  "loop_after e n init tr0 = Some (status, tr) \<Longrightarrow>
     ModelUUID status = ModelUUID init \<and> Attempt status = Attempt init
     \<and> TargetInfo status = TargetInfo init \<and> PhaseChangedTime status = PhaseChangedTime init"
proof (induction n arbitrary: init tr0)
  case 0
  then show ?case by simp
next
  case (Suc n)
  from Suc.prems obtain s1 t1 where
    it: "iteration e init tr0 = (Continue s1, t1)" and la: "loop_after e n s1 t1 = Some (status, tr)"
    by (auto split: prod.splits step.splits)
  from iteration_Continue_frame [OF it] have "s1 = init\<lparr>Phase := Phase s1\<rparr>" by simp
  then have "ModelUUID s1 = ModelUUID init \<and> Attempt s1 = Attempt init
     \<and> TargetInfo s1 = TargetInfo init \<and> PhaseChangedTime s1 = PhaseChangedTime init"
    by (metis MigrationStatus.select_convs MigrationStatus.surjective MigrationStatus.update_convs(3))
  with Suc.IH [OF la] show ?case by simp
qed

lemma iteration_SUCCESS_trace:
  assumes "Phase status = SUCCESS"
  shows "\<exists>ys. snd (iteration e status tr) = snd (waitForMinions e status waitForAll tr) @ ys"
  using assms
  by (auto simp add: iteration_def dispatch_def doSUCCESS_def Let_def
      split: prod.splits wait.splits sum.splits option.splits if_splits)

lemma iteration_SUCCESS_firstAfter:
  assumes "Phase status = SUCCESS"
  shows "firstAfter (added tr (snd (iteration e status tr)))
           = Some (maxMinionWait - Time_Sub (Now_ret e tr) (PhaseChangedTime status))"
proof -
  from iteration_SUCCESS_trace [OF assms] obtain ys where
    "snd (iteration e status tr) = snd (waitForMinions e status waitForAll tr) @ ys"
    by blast
  moreover from waitForMinions_extends [of e status waitForAll tr] obtain rest where
    "snd (waitForMinions e status waitForAll tr)
       = tr @ (Now, None)
            # (After (maxMinionWait - Time_Sub (Now_ret e tr) (PhaseChangedTime status)), None)
            # rest"
    by blast
  ultimately show ?thesis by simp
qed

lemma run_loop_loop_after:
  "loop_after e n status tr = Some (status', tr') \<Longrightarrow>
     run_loop e status tr = run_loop e status' tr'"
proof (induction n arbitrary: status tr)
  case 0
  then show ?case by simp
next
  case (Suc n)
  from Suc.prems obtain s1 t1 where
    it: "iteration e status tr = (Continue s1, t1)" and la: "loop_after e n s1 t1 = Some (status', tr')"
    by (auto split: prod.splits step.splits)
  from run_loop_Continue [OF it] Suc.IH [OF la] show ?case by simp
qed

text \<open>
  C10. A turn of the loop that goes round again has ended with a successful \<open>SetPhase\<close>
  and hands on the status it was given with the Phase field set to the phase persisted and
  nothing else changed. So at the start of any later turn of the loop, ModelUUID, Attempt,
  TargetInfo and PhaseChangedTime are those of the status with which the loop started; and
  a turn in phase SUCCESS hands to its first \<open>Clock.After\<close> the duration
  maxMinionWait - Now.Sub(PhaseChangedTime) of that first status.
\<close>

theorem status_frame:
  "(iteration e s t = (Continue s', t') \<longrightarrow>
        s' = s\<lparr>Phase := Phase s'\<rparr>
        \<and> (\<exists>t1. t' = t1 @ [(SetPhase (Phase s'), None)]))
   \<and> (loop_after e n init tr0 = Some (status, tr) \<longrightarrow>
        ModelUUID status = ModelUUID init \<and> Attempt status = Attempt init
        \<and> TargetInfo status = TargetInfo init
        \<and> PhaseChangedTime status = PhaseChangedTime init
        \<and> (Phase status = SUCCESS \<longrightarrow>
             firstAfter (added tr (snd (iteration e status tr)))
               = Some (maxMinionWait - Time_Sub (Now_ret e tr) (PhaseChangedTime init))))"
proof (intro conjI impI)
  assume "iteration e s t = (Continue s', t')"
  from iteration_Continue_frame [OF this]
  show "s' = s\<lparr>Phase := Phase s'\<rparr>"
    and "\<exists>t1. t' = t1 @ [(SetPhase (Phase s'), None)]"
    by simp_all
next
  assume la: "loop_after e n init tr0 = Some (status, tr)"
  from loop_after_frame [OF la]
  show "ModelUUID status = ModelUUID init" "Attempt status = Attempt init"
    "TargetInfo status = TargetInfo init" "PhaseChangedTime status = PhaseChangedTime init"
    by simp_all
  assume "Phase status = SUCCESS"
  from iteration_SUCCESS_firstAfter [OF this, of tr e] loop_after_frame [OF la]
  show "firstAfter (added tr (snd (iteration e status tr)))
          = Some (maxMinionWait - Time_Sub (Now_ret e tr) (PhaseChangedTime init))"
    by simp
qed


text \<open>
  The theorem at the concrete migration: the first turn, and the turn in phase SUCCESS,
  which is turn number 5.
\<close>

theorem status_frame_witness:
  "iteration env_ok status0 []
     = (Continue (status0\<lparr>Phase := READONLY\<rparr>),
        [(Log INFO ''setting migration phase to %s'' [LP READONLY], None),
         (SetPhase READONLY, None)])
   \<and> (\<exists>tr. loop_after env_ok 5 status0 [] = Some (status0\<lparr>Phase := SUCCESS\<rparr>, tr)
          \<and> PhaseChangedTime (status0\<lparr>Phase := SUCCESS\<rparr>) = PhaseChangedTime status0
          \<and> firstAfter (added tr (snd (iteration env_ok (status0\<lparr>Phase := SUCCESS\<rparr>) tr)))
              = Some 899000000000)"
proof -
  have i: "iteration env_ok status0 []
     = (Continue (status0\<lparr>Phase := READONLY\<rparr>),
        [(Log INFO ''setting migration phase to %s'' [LP READONLY], None),
         (SetPhase READONLY, None)])"
    by (simp add: iteration_def dispatch_def returned_def doQUIESCE_def env_ok_def status0_def
          modelHasMigrated_def)
  obtain tr where la: "loop_after env_ok 5 status0 [] = Some (status0\<lparr>Phase := SUCCESS\<rparr>, tr)"
    by (simp add: eval_nat_numeral iteration_def dispatch_def returned_def doQUIESCE_def
          doREADONLY_def doPRECHECK_def doIMPORT_def doVALIDATION_def activateModel_def
          openAPIConn_def openAPIConnForModel_def env_ok_def status0_def modelHasMigrated_def
          Let_def)
  have d: "maxMinionWait - Time_Sub (Now_ret env_ok tr) (PhaseChangedTime status0)
             = 899000000000"
    by (simp add: env_ok_def status0_def Time_Sub_def Let_def maxMinionWait_def Minute_def
          Second_def)
  have p: "Phase (status0\<lparr>Phase := SUCCESS\<rparr>) = SUCCESS" by simp
  from status_frame [where e = env_ok and s = status0 and t = "[]" and n = 5
         and init = status0 and ?tr0.0 = "[]" and status = "status0\<lparr>Phase := SUCCESS\<rparr>"
         and tr = tr]
       i la d p
  show ?thesis by auto
qed

subsection \<open>The happy path\<close>

lemma err_of_None: "err_of r = None \<Longrightarrow> \<exists>x. r = Inr x"
  by (cases r) simp_all

lemma openAPIConnForModel_ok:
  assumes "\<forall>h i. err_of (APIOpen_ret e h i) = None"
  shows "\<exists>c i. openAPIConnForModel e ti u tr = (Inr c, tr @ [(APIOpen i, None)])"
proof -
  let ?i = "\<lparr>Info_Addrs = Addrs ti, Info_CACert = CACert ti, Info_Tag = AuthTag ti,
             Info_Password = Password ti, Info_ModelTag = u\<rparr>"
  from assms have "err_of (APIOpen_ret e tr ?i) = None" by blast
  from err_of_None [OF this] obtain c where "APIOpen_ret e tr ?i = Inr c" by blast
  then show ?thesis by (simp add: openAPIConnForModel_def)
qed

lemma doIMPORT_ok:
  assumes export: "\<forall>h. err_of (Export_ret e h) = None"
    and dial: "\<forall>h i. err_of (APIOpen_ret e h i) = None"
    and import: "\<forall>h c b. Import_ret e h c b = None"
    and upload: "\<forall>h c. UploadBinaries_ret e h c = None"
  shows "fst (doIMPORT e ti u tr) = (VALIDATION, None)"
proof -
  let ?tr1 = "tr @ [(Log INFO ''exporting model'' [], None)]"
  from export have "err_of (Export_ret e ?tr1) = None" by blast
  from err_of_None [OF this] obtain m where m: "Export_ret e ?tr1 = Inr m" by blast
  let ?tr2 = "?tr1 @ [(Export, None),
                (Log INFO ''opening API connection to target controller'' [], None)]"
  from openAPIConnForModel_ok [OF dial, of ti "[]" ?tr2] obtain c i where
    c: "openAPIConn e ti ?tr2 = (Inr c, ?tr2 @ [(APIOpen i, None)])"
    by (auto simp add: openAPIConn_def)
  let ?tr5 = "(?tr2 @ [(APIOpen i, None)])
                @ [(Log INFO ''importing model into target controller'' [], None)]
                @ [(Import c (Bytes m), None),
                   (Log INFO ''opening API connection for target model'' [], None)]"
  from openAPIConnForModel_ok [OF dial, of ti u ?tr5] obtain c' i' where
    c': "openAPIConnForModel e ti u ?tr5 = (Inr c', ?tr5 @ [(APIOpen i', None)])"
    by blast
  show ?thesis
    using m c c' import upload by (simp add: doIMPORT_def Let_def)
qed

lemma doVALIDATION_ok:
  assumes dial: "\<forall>h i. err_of (APIOpen_ret e h i) = None"
    and activate: "\<forall>h c u. Activate_ret e h c u = None"
  shows "fst (doVALIDATION e ti u tr) = (SUCCESS, None)"
proof -
  from openAPIConnForModel_ok [OF dial, of ti "[]" tr] obtain c i where
    "openAPIConn e ti tr = (Inr c, tr @ [(APIOpen i, None)])"
    by (auto simp add: openAPIConn_def)
  then show ?thesis
    using activate by (simp add: doVALIDATION_def activateModel_def Let_def)
qed

lemma doSUCCESS_ok:
  assumes watchm: "\<forall>h. WatchMinionReports_ret e h = None"
    and add: "\<forall>h. CatacombAdd_ret e h = None"
    and mtick: "minionEvents e = MChanges # mevs"
    and reports: "\<forall>h. \<exists>r. GetMinionReports_ret e h = Inr r
                     \<and> validateMinionReports r status = None \<and> UnknownCount r = 0
                     \<and> FailedMachines r = [] \<and> FailedUnits r = []"
  shows "fst (doSUCCESS e status tr) = Returned (LOGTRANSFER, None)"
proof -
  have "fst (minionLoop e status waitForAll prev (MChanges # mevs) h) = Returned None" for prev h
  proof -
    from reports obtain r where "GetMinionReports_ret e h = Inr r"
      "validateMinionReports r status = None" "UnknownCount r = 0"
      "FailedMachines r = []" "FailedUnits r = []"
      by blast
    then show ?thesis by (simp add: Let_def)
  qed
  then have "fst (waitForMinions e status waitForAll tr) = Returned None"
    using watchm add mtick by (simp add: waitForMinions_def Let_def del: minionLoop.simps)
  then show ?thesis
    by (auto simp add: doSUCCESS_def split: prod.splits wait.splits)
qed

lemma doREAP_ok: "\<forall>h. Reap_ret e h = None \<Longrightarrow> fst (doREAP e tr) = (DONE, None)"
  by (simp add: doREAP_def)

lemma run_loop_chain:
  assumes d: "fst (dispatch e s tr) = Returned (Inr (p, None))"
    and nt: "\<not> IsTerminal p"
    and alive: "\<forall>h. \<not> killed e h"
    and setphase: "\<forall>h q. SetPhase_ret e h q = None"
    and rest: "\<And>tr'. fst (run_loop e (s\<lparr>Phase := p\<rparr>) tr') = Returned ErrUninstall
                 \<and> phasesSet (snd (run_loop e (s\<lparr>Phase := p\<rparr>) tr')) = phasesSet tr' @ ps
                 \<and> last (snd (run_loop e (s\<lparr>Phase := p\<rparr>) tr')) = (SetPhase DONE, None)"
  shows "fst (run_loop e s tr) = Returned ErrUninstall
         \<and> phasesSet (snd (run_loop e s tr)) = phasesSet tr @ p # ps
         \<and> last (snd (run_loop e s tr)) = (SetPhase DONE, None)"
proof -
  let ?tr1 = "snd (dispatch e s tr)"
  let ?tr2 = "?tr1 @ [(Log INFO ''setting migration phase to %s'' [LP p], None),
                      (SetPhase p, None)]"
  from d have d': "dispatch e s tr = (Returned (Inr (p, None)), ?tr1)"
    by (metis prod.collapse)
  from nt have "\<not> modelHasMigrated p"
    by (auto simp add: modelHasMigrated_def)
  with iteration_next [OF d'] nt alive setphase
  have "iteration e s tr = (Continue (s\<lparr>Phase := p\<rparr>), ?tr2)"
    by simp
  from run_loop_Continue [OF this] have "run_loop e s tr = run_loop e (s\<lparr>Phase := p\<rparr>) ?tr2" .
  with rest [of ?tr2] show ?thesis
    by (simp add: phasesSet_append dispatch_phasesSet)
qed

lemma run_loop_done:
  assumes d: "fst (dispatch e s tr) = Returned (Inr (DONE, None))"
    and alive: "\<forall>h. \<not> killed e h"
    and setphase: "\<forall>h q. SetPhase_ret e h q = None"
  shows "fst (run_loop e s tr) = Returned ErrUninstall
         \<and> phasesSet (snd (run_loop e s tr)) = phasesSet tr @ [DONE]
         \<and> last (snd (run_loop e s tr)) = (SetPhase DONE, None)"
proof -
  let ?tr1 = "snd (dispatch e s tr)"
  let ?tr2 = "?tr1 @ [(Log INFO ''setting migration phase to %s'' [LP DONE], None),
                      (SetPhase DONE, None)]"
  from d have d': "dispatch e s tr = (Returned (Inr (DONE, None)), ?tr1)"
    by (metis prod.collapse)
  with iteration_next [OF d'] alive setphase
  have "iteration e s tr = (Exit ErrUninstall, ?tr2)"
    by (simp add: modelHasMigrated_def)
  from run_loop_Exit [OF this] show ?thesis
    by (simp add: phasesSet_append dispatch_phasesSet)
qed


text \<open>
  C1. Let the watcher fire and the status fetched be in phase QUIESCE; let every call
  succeed (Watch, the catacomb, Lockdown, Export, every dial, Import, UploadBinaries,
  Activate, Reap, every SetPhase), let the worker not be killed, and let the reports
  watcher fire in the SUCCESS phase with reports that are valid for the status, with
  UnknownCount 0 and no failed machine or unit. Then \<open>run\<close> returns \<open>ErrUninstall\<close>,
  the phases it has persisted are READONLY, PRECHECK, IMPORT, VALIDATION, SUCCESS,
  LOGTRANSFER, REAP, DONE in that order, and its last call is the \<open>SetPhase\<close> of DONE: no
  handler runs after it.
\<close>

theorem happy_path:
  assumes watch: "\<forall>h. Watch_ret e h = None"
    and add: "\<forall>h. CatacombAdd_ret e h = None"
    and tick: "activeEvents e = Changes # evs"
    and found: "\<forall>h. GetMigrationStatus_ret e h = Inr st"
    and quiesce: "Phase st = QUIESCE"
    and lock: "\<forall>h. Lockdown_ret e h = None"
    and alive: "\<forall>h. \<not> killed e h"
    and setphase: "\<forall>h p. SetPhase_ret e h p = None"
    and export: "\<forall>h. err_of (Export_ret e h) = None"
    and dial: "\<forall>h i. err_of (APIOpen_ret e h i) = None"
    and import: "\<forall>h c b. Import_ret e h c b = None"
    and upload: "\<forall>h c. UploadBinaries_ret e h c = None"
    and activate: "\<forall>h c u. Activate_ret e h c u = None"
    and reap: "\<forall>h. Reap_ret e h = None"
    and watchm: "\<forall>h. WatchMinionReports_ret e h = None"
    and mtick: "minionEvents e = MChanges # mevs"
    and reports: "\<forall>h. \<exists>r. GetMinionReports_ret e h = Inr r
                     \<and> validateMinionReports r (st\<lparr>Phase := SUCCESS\<rparr>) = None
                     \<and> UnknownCount r = 0 \<and> FailedMachines r = [] \<and> FailedUnits r = []"
  shows "fst (run e) = Returned ErrUninstall
       \<and> phasesSet (snd (run e))
           = [READONLY, PRECHECK, IMPORT, VALIDATION, SUCCESS, LOGTRANSFER, REAP, DONE]
       \<and> last (snd (run e)) = (SetPhase DONE, None)"
proof -
  let ?S = "\<lambda>p. st\<lparr>Phase := p\<rparr>"
  let ?tr0 = "[(Watch, None), (CatacombAdd, None), (GetMigrationStatus, None),
               (WatcherKill, None), (Lockdown, None)]"
  have w: "waitForActiveMigration e []
             = (Returned (Inr st), [(Watch, None), (CatacombAdd, None),
                                    (GetMigrationStatus, None), (WatcherKill, None)])"
    using watch add tick found quiesce
    by (simp add: waitForActiveMigration_def Let_def modelHasMigrated_def)
  have r: "run e = run_loop e st ?tr0"
    using w lock by (simp add: run_def Let_def)
  have g8: "fst (run_loop e (?S REAP) tr) = Returned ErrUninstall
         \<and> phasesSet (snd (run_loop e (?S REAP) tr)) = phasesSet tr @ [DONE]
         \<and> last (snd (run_loop e (?S REAP) tr)) = (SetPhase DONE, None)" for tr
    by (rule run_loop_done [OF _ alive setphase])
       (simp add: dispatch_def returned_def doREAP_ok [OF reap])
  have g7: "fst (run_loop e (?S LOGTRANSFER) tr) = Returned ErrUninstall
         \<and> phasesSet (snd (run_loop e (?S LOGTRANSFER) tr)) = phasesSet tr @ [REAP, DONE]
         \<and> last (snd (run_loop e (?S LOGTRANSFER) tr)) = (SetPhase DONE, None)" for tr
    by (rule run_loop_chain [where p = REAP and ps = "[DONE]", OF _ _ alive setphase])
       (simp_all add: dispatch_def returned_def doLOGTRANSFER_def g8)
  have g6: "fst (run_loop e (?S SUCCESS) tr) = Returned ErrUninstall
         \<and> phasesSet (snd (run_loop e (?S SUCCESS) tr)) = phasesSet tr @ [LOGTRANSFER, REAP, DONE]
         \<and> last (snd (run_loop e (?S SUCCESS) tr)) = (SetPhase DONE, None)" for tr
  proof (rule run_loop_chain [where p = LOGTRANSFER and ps = "[REAP, DONE]",
                OF _ _ alive setphase])
    from doSUCCESS_ok [OF watchm add mtick reports, of tr]
    show "fst (dispatch e (?S SUCCESS) tr) = Returned (Inr (LOGTRANSFER, None))"
      by (auto simp add: dispatch_def split: prod.splits wait.splits)
  qed (simp_all add: g7)
  have g5: "fst (run_loop e (?S VALIDATION) tr) = Returned ErrUninstall
         \<and> phasesSet (snd (run_loop e (?S VALIDATION) tr))
             = phasesSet tr @ [SUCCESS, LOGTRANSFER, REAP, DONE]
         \<and> last (snd (run_loop e (?S VALIDATION) tr)) = (SetPhase DONE, None)" for tr
    by (rule run_loop_chain [where p = SUCCESS and ps = "[LOGTRANSFER, REAP, DONE]", OF _ _ alive setphase])
       (simp_all add: dispatch_def returned_def doVALIDATION_ok [OF dial activate] g6)
  have g4: "fst (run_loop e (?S IMPORT) tr) = Returned ErrUninstall
         \<and> phasesSet (snd (run_loop e (?S IMPORT) tr))
             = phasesSet tr @ [VALIDATION, SUCCESS, LOGTRANSFER, REAP, DONE]
         \<and> last (snd (run_loop e (?S IMPORT) tr)) = (SetPhase DONE, None)" for tr
    by (rule run_loop_chain [where p = VALIDATION and ps = "[SUCCESS, LOGTRANSFER, REAP, DONE]", OF _ _ alive setphase])
       (simp_all add: dispatch_def returned_def doIMPORT_ok [OF export dial import upload] g5)
  have g3: "fst (run_loop e (?S PRECHECK) tr) = Returned ErrUninstall
         \<and> phasesSet (snd (run_loop e (?S PRECHECK) tr))
             = phasesSet tr @ [IMPORT, VALIDATION, SUCCESS, LOGTRANSFER, REAP, DONE]
         \<and> last (snd (run_loop e (?S PRECHECK) tr)) = (SetPhase DONE, None)" for tr
    by (rule run_loop_chain [where p = IMPORT and ps = "[VALIDATION, SUCCESS, LOGTRANSFER, REAP, DONE]", OF _ _ alive setphase])
       (simp_all add: dispatch_def returned_def doPRECHECK_def g4)
  have g2: "fst (run_loop e (?S READONLY) tr) = Returned ErrUninstall
         \<and> phasesSet (snd (run_loop e (?S READONLY) tr))
             = phasesSet tr @ [PRECHECK, IMPORT, VALIDATION, SUCCESS, LOGTRANSFER, REAP, DONE]
         \<and> last (snd (run_loop e (?S READONLY) tr)) = (SetPhase DONE, None)" for tr
    by (rule run_loop_chain [where p = PRECHECK and ps = "[IMPORT, VALIDATION, SUCCESS, LOGTRANSFER, REAP, DONE]", OF _ _ alive setphase])
       (simp_all add: dispatch_def returned_def doREADONLY_def g3)
  have g1: "fst (run_loop e st tr) = Returned ErrUninstall
         \<and> phasesSet (snd (run_loop e st tr))
             = phasesSet tr
               @ [READONLY, PRECHECK, IMPORT, VALIDATION, SUCCESS, LOGTRANSFER, REAP, DONE]
         \<and> last (snd (run_loop e st tr)) = (SetPhase DONE, None)" for tr
    by (rule run_loop_chain [where p = READONLY
              and ps = "[PRECHECK, IMPORT, VALIDATION, SUCCESS, LOGTRANSFER, REAP, DONE]",
              OF _ _ alive setphase])
       (simp_all add: dispatch_def returned_def doQUIESCE_def quiesce g2)
  from g1 [of ?tr0] r show ?thesis by simp
qed


text \<open>The theorem at the concrete migration.\<close>

theorem happy_path_witness:
  "activeEvents env_ok = [Changes]
   \<and> (\<forall>h. GetMigrationStatus_ret env_ok h = Inr status0)
   \<and> Phase status0 = QUIESCE
   \<and> minionEvents env_ok = [MChanges]
   \<and> (\<forall>h. GetMinionReports_ret env_ok h = Inr reports_done)
   \<and> validateMinionReports reports_done (status0\<lparr>Phase := SUCCESS\<rparr>) = None
   \<and> UnknownCount reports_done = 0
   \<and> fst (run env_ok) = Returned ErrUninstall
   \<and> phasesSet (snd (run env_ok))
       = [READONLY, PRECHECK, IMPORT, VALIDATION, SUCCESS, LOGTRANSFER, REAP, DONE]
   \<and> last (snd (run env_ok)) = (SetPhase DONE, None)"
proof -
  have watch: "\<forall>h. Watch_ret env_ok h = None"
    and add: "\<forall>h. CatacombAdd_ret env_ok h = None"
    and tick: "activeEvents env_ok = Changes # []"
    and found: "\<forall>h. GetMigrationStatus_ret env_ok h = Inr status0"
    and lock: "\<forall>h. Lockdown_ret env_ok h = None"
    and alive: "\<forall>h. \<not> killed env_ok h"
    and setphase: "\<forall>h p. SetPhase_ret env_ok h p = None"
    and export: "\<forall>h. err_of (Export_ret env_ok h) = None"
    and dial: "\<forall>h i. err_of (APIOpen_ret env_ok h i) = None"
    and import: "\<forall>h c b. Import_ret env_ok h c b = None"
    and upload: "\<forall>h c. UploadBinaries_ret env_ok h c = None"
    and activate: "\<forall>h c u. Activate_ret env_ok h c u = None"
    and reap: "\<forall>h. Reap_ret env_ok h = None"
    and watchm: "\<forall>h. WatchMinionReports_ret env_ok h = None"
    and mtick: "minionEvents env_ok = MChanges # []"
    and fetch: "\<forall>h. GetMinionReports_ret env_ok h = Inr reports_done"
    by (simp_all add: env_ok_def)
  have quiesce: "Phase status0 = QUIESCE"
    by (simp add: status0_def)
  have zero: "UnknownCount reports_done = 0" "FailedMachines reports_done = []"
      "FailedUnits reports_done = []"
    by (simp_all add: reports_done_def)
  have reports: "\<forall>h. \<exists>r. GetMinionReports_ret env_ok h = Inr r
                     \<and> validateMinionReports r (status0\<lparr>Phase := SUCCESS\<rparr>) = None
                     \<and> UnknownCount r = 0 \<and> FailedMachines r = [] \<and> FailedUnits r = []"
    using fetch validate_done zero by simp
  from happy_path [OF watch add tick found quiesce lock alive setphase export dial import
         upload activate reap watchm mtick reports]
       tick found quiesce mtick fetch validate_done zero
  show ?thesis by simp
qed

end
